theory Spec2Isabelle
  imports Main "HOL-Library.List_Lexorder" "HOL-Library.Char_ord" "HOL-Library.Sublist"
    "HOL-Library.AList"
begin

section \<open>The Normalizer (conn.go, \<open>normalize\<close>)\<close>

text \<open>
  Go strings are byte sequences; \<^typ>\<open>string\<close> is a list of bytes here as well.
  \<open>strings.TrimSpace\<close> belongs to the Go standard library: it removes leading and trailing
  white space as defined by Unicode (\<open>unicode.IsSpace\<close>). On bytes this is the removal of
  the UTF-8 encodings listed in \<open>spaceRunes\<close>: the six ASCII characters
  \<open>\t \n \v \f \r\<close> and space, U+0085, U+00A0, U+1680, U+2000 to U+200A, U+2028, U+2029,
  U+202F, U+205F and U+3000.
\<close>

definition spaceRunes :: "string list" where
  "spaceRunes =
     [[CHR 0x09], [CHR 0x0A], [CHR 0x0B], [CHR 0x0C], [CHR 0x0D], [CHR 0x20],
      [CHR 0xC2, CHR 0x85], [CHR 0xC2, CHR 0xA0],
      [CHR 0xE1, CHR 0x9A, CHR 0x80],
      [CHR 0xE2, CHR 0x80, CHR 0x80], [CHR 0xE2, CHR 0x80, CHR 0x81],
      [CHR 0xE2, CHR 0x80, CHR 0x82], [CHR 0xE2, CHR 0x80, CHR 0x83],
      [CHR 0xE2, CHR 0x80, CHR 0x84], [CHR 0xE2, CHR 0x80, CHR 0x85],
      [CHR 0xE2, CHR 0x80, CHR 0x86], [CHR 0xE2, CHR 0x80, CHR 0x87],
      [CHR 0xE2, CHR 0x80, CHR 0x88], [CHR 0xE2, CHR 0x80, CHR 0x89],
      [CHR 0xE2, CHR 0x80, CHR 0x8A],
      [CHR 0xE2, CHR 0x80, CHR 0xA8], [CHR 0xE2, CHR 0x80, CHR 0xA9],
      [CHR 0xE2, CHR 0x80, CHR 0xAF],
      [CHR 0xE2, CHR 0x81, CHR 0x9F],
      [CHR 0xE3, CHR 0x80, CHR 0x80]]"

text \<open>
  \<open>trimPrefixes toks s\<close> removes from the front of \<open>s\<close>, repeatedly, any of the byte
  sequences \<open>toks\<close>; this is \<open>strings.TrimLeftFunc\<close> when \<open>toks\<close> are the encodings of the
  runes to drop.
\<close>

function trimPrefixes :: "string list \<Rightarrow> string \<Rightarrow> string" where
  "trimPrefixes toks s =
     (case filter (\<lambda>tok. tok \<noteq> [] \<and> prefix tok s) toks of
        [] \<Rightarrow> s
      | tok # _ \<Rightarrow> trimPrefixes toks (drop (length tok) s))"
  by pat_completeness auto
termination
proof (relation "measure (\<lambda>(toks, s). length s)")
  show "wf (measure (\<lambda>(toks, s). length s))"
    by simp
next
  fix toks :: "string list" and s tok :: string and rest :: "string list"
  assume "filter (\<lambda>tok. tok \<noteq> [] \<and> prefix tok s) toks = tok # rest"
  then have "tok \<in> set (filter (\<lambda>tok. tok \<noteq> [] \<and> prefix tok s) toks)"
    by simp
  then have "tok \<noteq> []" and "prefix tok s"
    by auto
  then show "((toks, drop (length tok) s), (toks, s)) \<in> measure (\<lambda>(toks, s). length s)"
    by (auto simp: prefix_def)
qed

declare trimPrefixes.simps [simp del]

definition TrimSpace :: "string \<Rightarrow> string" where
  "TrimSpace s =
     rev (trimPrefixes (map rev spaceRunes) (rev (trimPrefixes spaceRunes s)))"

text \<open>\<open>strings.Split(q, "\n")\<close>: the pieces between newline bytes; never the empty list.\<close>

fun Split_nl :: "string \<Rightarrow> string list" where
  "Split_nl [] = [[]]"
| "Split_nl (c # cs) =
     (if c = CHR 0x0A then [] # Split_nl cs
      else (case Split_nl cs of l # ls \<Rightarrow> (c # l) # ls | [] \<Rightarrow> [[c]]))"

text \<open>\<open>strings.Join(lines, sep)\<close>.\<close>

fun Join :: "string list \<Rightarrow> string \<Rightarrow> string" where
  "Join [] sep = []"
| "Join [l] sep = l"
| "Join (l # ls) sep = l @ sep @ Join ls sep"

text \<open>
  \<open>normalize\<close> of conn.go; the name carries a suffix because \<open>normalize\<close> is a constant of
  the HOL library. The two \<open>for\<close> loops drop empty lines from the front and from the back.
\<close>

definition normalize_query :: "string \<Rightarrow> string" where
  "normalize_query q =
     (let lines = Split_nl q;
          lines = map TrimSpace lines;
          lines = dropWhile (\<lambda>l. length l = 0) lines;
          lines = rev (dropWhile (\<lambda>l. length l = 0) (rev lines))
      in Join lines '' '')"

section \<open>The environment (transform.go, \<open>status\<close> and \<open>environ\<close>)\<close>

datatype status = noStatus | needsTenantID | hasTenantID | isCTE | isLeftJoinTable

text \<open>
  \<open>environ\<close> is a Go map from names to \<open>status\<close>. It is an association list with one entry
  per key, in order of first insertion; reading a missing key gives the zero value
  \<open>noStatus\<close>. Go leaves the iteration order of a map unspecified. The transformer iterates
  over an environment to find a value (any entry with a given status), to collect the keys,
  which it then sorts, and to copy entries into another map: only the first of these can
  depend on the order, and only when two entries carry the status looked for.
\<close>

type_synonym environ = "(string \<times> status) list"

definition newEnv :: environ where
  "newEnv = []"

definition envGet :: "environ \<Rightarrow> string \<Rightarrow> status" where
  "envGet env k = (case map_of env k of None \<Rightarrow> noStatus | Some s \<Rightarrow> s)"

definition envSet :: "environ \<Rightarrow> string \<Rightarrow> status \<Rightarrow> environ" where
  "envSet env k v = AList.update k v env"

section \<open>Parse trees (package \<open>pg_query_go/nodes\<close>)\<close>

text \<open>
  The parser and its node types are an external library. The datatypes below carry, for
  every node type that transform.go mentions, the fields that transform.go reads, in the
  order of the Go struct; a trailing \<open>node list\<close> named \<open>unread\<close> in the comments stands for
  the node-valued fields of the struct that the transformer never reads (only
  \<open>findMaxParam\<close>, which walks every field, sees them). \<open>OtherNode\<close> is a node of any other
  type, with its Go type name and its child nodes. \<open>Nil\<close> is the nil interface value.
  The enumerations list the constants of PostgreSQL 10, which pg_query_go embeds.

  Pointer fields that transform.go tests against nil are options. The names
  \<open>Relname\<close>, \<open>Aliasname\<close> and \<open>Ctename\<close> are \<open>*string\<close> in Go and always set by the parser;
  they are plain strings here.
\<close>

datatype a_Expr_Kind = AEXPR_OP | AEXPR_OP_ANY | AEXPR_OP_ALL | AEXPR_DISTINCT | AEXPR_NOT_DISTINCT
  | AEXPR_NULLIF | AEXPR_OF | AEXPR_IN | AEXPR_LIKE | AEXPR_ILIKE | AEXPR_SIMILAR | AEXPR_BETWEEN
  | AEXPR_NOT_BETWEEN | AEXPR_BETWEEN_SYM | AEXPR_NOT_BETWEEN_SYM | AEXPR_PAREN

datatype boolExprType = AND_EXPR | OR_EXPR | NOT_EXPR

datatype subLinkType = EXISTS_SUBLINK | ALL_SUBLINK | ANY_SUBLINK | ROWCOMPARE_SUBLINK
  | EXPR_SUBLINK | MULTIEXPR_SUBLINK | ARRAY_SUBLINK | CTE_SUBLINK

datatype nullTestType = IS_NULL | IS_NOT_NULL

datatype joinType = JOIN_INNER | JOIN_LEFT | JOIN_FULL | JOIN_RIGHT | JOIN_SEMI | JOIN_ANTI
  | JOIN_UNIQUE_OUTER | JOIN_UNIQUE_INNER

datatype sortByDir = SORTBY_DEFAULT | SORTBY_ASC | SORTBY_DESC | SORTBY_USING

datatype onConflictAction = ONCONFLICT_NONE | ONCONFLICT_NOTHING | ONCONFLICT_UPDATE

datatype sQLValueFunctionOp = SVFOP_CURRENT_DATE | SVFOP_CURRENT_TIME | SVFOP_CURRENT_TIME_N
  | SVFOP_CURRENT_TIMESTAMP | SVFOP_CURRENT_TIMESTAMP_N | SVFOP_LOCALTIME | SVFOP_LOCALTIME_N
  | SVFOP_LOCALTIMESTAMP | SVFOP_LOCALTIMESTAMP_N | SVFOP_CURRENT_ROLE | SVFOP_CURRENT_USER
  | SVFOP_USER | SVFOP_SESSION_USER | SVFOP_CURRENT_CATALOG | SVFOP_CURRENT_SCHEMA

text \<open>
  Fields, in order:
  \<^item> \<open>UpdateStmt\<close>: Relation, TargetList, WhereClause, FromClause, ReturningList, WithClause;
  \<^item> \<open>DeleteStmt\<close>: Relation, UsingClause, WhereClause, unread (ReturningList, WithClause);
  \<^item> \<open>RangeSubselect\<close>: Subquery, Alias; \<open>ParamRef\<close>: Number; \<open>TypeCast\<close>: Arg, TypeName;
  \<^item> \<open>ResTarget\<close>: Name, Val, unread (Indirection); \<open>ColumnRef\<close>: Fields;
  \<^item> \<open>A_Expr\<close>: Kind, Name, Lexpr, Rexpr;
  \<^item> \<open>FuncCall\<close>: Funcname, Args, AggStar, unread (AggOrder, AggFilter, Over);
  \<^item> \<open>BoolExpr\<close>: Boolop, Args; \<open>SubLink\<close>: SubLinkType, Testexpr, Subselect, unread (OperName);
  \<^item> \<open>A_Const\<close>: Val; \<open>CoalesceExpr\<close>: Args; \<open>NullTest\<close>: Arg, Nulltesttype;
  \<^item> \<open>CaseExpr\<close>: Arg, Args, Defresult; \<open>CaseWhen\<close>: Expr, Result;
  \<^item> \<open>JoinExpr\<close>: Jointype, Larg, Rarg, Quals, unread (UsingClause, Alias);
  \<^item> \<open>RangeFunction\<close>: Functions, Alias, unread (Coldeflist);
  \<^item> \<open>RowExpr\<close>: Args, unread (Colnames); \<open>SQLValueFunction\<close>: Op;
  \<^item> \<open>SortBy\<close>: Node, SortbyDir, unread (UseOp); \<open>List\<close>: Items;
  \<^item> \<open>CommonTableExpr\<close>: Ctename, Ctequery, unread; \<open>IndexElem\<close>: Name, unread (Expr, ...);
  \<^item> \<open>RangeVar\<close>: Relname, Alias; \<open>Alias\<close>: Aliasname, Colnames;
  \<^item> \<open>TypeName\<close>: Names, ArrayBounds, unread (Typmods); \<open>WithClause\<close>: Ctes, Recursive;
  \<^item> \<open>OnConflictClause\<close>: Action, Infer.IndexElems (\<open>None\<close> when Infer is nil), TargetList,
    WhereClause, unread (Infer.WhereClause);
  \<^item> \<open>InsertStmt\<close>: Relation, Cols, SelectStmt, OnConflictClause, ReturningList, WithClause;
  \<^item> \<open>SelectStmt\<close>: DistinctClause, TargetList, FromClause, WhereClause, GroupClause,
    HavingClause, ValuesLists, SortClause, LimitCount, WithClause, unread (IntoClause,
    WindowClause, LimitOffset, LockingClause, Larg, Rarg).
\<close>

datatype node =
    Nil
  | RawStmt node
  | InsertStmtN insertStmt
  | SelectStmtN selectStmt
  | UpdateStmt rangeVar "node list" node "node list" "node list" "withClause option"
  | DeleteStmt rangeVar "node list" node "node list"
  | RangeSubselect node "aliasT option"
  | ParamRef int
  | TypeCast node "typeName option"
  | ResTarget "string option" node "node list"
  | ColumnRef "node list"
  | String string
  | A_Expr a_Expr_Kind "node list" node node
  | FuncCall "node list" "node list" bool "node list"
  | BoolExpr boolExprType "node list"
  | SubLink subLinkType node node "node list"
  | A_Const node
  | RangeVarN rangeVar
  | CoalesceExpr "node list"
  | SetToDefault
  | NullTest node nullTestType
  | CaseExpr node "node list" node
  | CaseWhen node node
  | JoinExpr joinType node node node "node list"
  | RangeFunction "node list" "aliasT option" "node list"
  | RowExpr "node list" "node list"
  | SQLValueFunction sQLValueFunctionOp
  | A_Star
  | Integer int
  | Float string
  | Null
  | BitString string
  | SortBy node sortByDir "node list"
  | List "node list"
  | CommonTableExpr string node "node list"
  | IndexElem "string option" "node list"
  | OtherNode string "node list"
and rangeVar = RangeVar string "aliasT option"
and aliasT = Alias string "node list"
and typeName = TypeName "node list" "node list" "node list"
and withClause = WithClause "node list" bool
and onConflictClause = OnConflictClause onConflictAction "node list option" "node list" node "node list"
and insertStmt = InsertStmt rangeVar "node list" node "onConflictClause option" "node list" "withClause option"
and selectStmt = SelectStmt "node list" "node list" "node list" node "node list" node "node list list" "node list" node "withClause option" "node list"

section \<open>Errors, the driver and the transformer state\<close>

text \<open>
  \<open>Errorf\<close> is an error made by \<open>fmt.Errorf\<close>; it carries the format string, without the
  values put into it. \<open>Wrap\<close> is \<open>errors.Wrap\<close>. \<open>ParserError\<close> is an error of the parser.
  \<open>Panic\<close> is a run-time panic (a nil pointer dereference): Go unwinds the stack, the model
  passes it up like an error.
\<close>

datatype error = Errorf string | Wrap error string | ErrUnknownQuery | ParserError string | Panic string

record transformed =
  Query :: string
  Num :: int

text \<open>
  \<open>queryCache\<close> holds a pointer to an LRU cache of the groupcache library, nil until the
  first insertion. The cache is the list of its entries, most recently used first.
\<close>

record queryCache =
  cache :: "(string \<times> transformed) list option"

record driver =
  TenantIDCol :: string
  Whitelist :: "string \<rightharpoonup> transformed"
  dynamicCache :: queryCache

record conn =
  driver :: driver

text \<open>
  The Go struct \<open>transformer\<close> has the fields \<open>Conn\<close>, \<open>tenantIDNum\<close> and \<open>isTransformed\<close>.
  No statement of the package assigns \<open>Conn\<close> or \<open>tenantIDNum\<close> after the struct literal that
  creates the transformer, so the record \<open>transformer\<close> holds these two and is passed
  unchanged to every method. The flag \<open>isTransformed\<close>, which \<open>addTenantID\<close> sets, travels
  together with the bytes written so far to the \<open>io.Writer\<close> of the method: record \<open>wstate\<close>.
\<close>

record transformer =
  Conn :: conn
  tenantIDNum :: int

record wstate =
  buf :: string
  isTransformed :: bool

type_synonym result = "error option \<times> environ \<times> wstate"

section \<open>Emitter primitives\<close>

definition Fprint :: "string \<Rightarrow> wstate \<Rightarrow> wstate" where
  "Fprint s w = w\<lparr>buf := buf w @ s\<rparr>"

text \<open>The verb \<open>%d\<close> of package fmt.\<close>

function natToString :: "nat \<Rightarrow> string" where
  "natToString n =
     (if n < 10 then [''0123456789'' ! n]
      else natToString (n div 10) @ [''0123456789'' ! (n mod 10)])"
  by pat_completeness auto
termination
  by (relation "measure id") auto

declare natToString.simps [simp del]

definition itoa :: "int \<Rightarrow> string" where
  "itoa i = (if i < 0 then CHR ''-'' # natToString (nat (- i)) else natToString (nat i))"

definition addTenantID :: "transformer \<Rightarrow> wstate \<Rightarrow> wstate" where
  "addTenantID t w = (Fprint (''$'' @ itoa (tenantIDNum t)) w)\<lparr>isTransformed := True\<rparr>"

text \<open>\<open>pq.QuoteIdentifier\<close> of the lib/pq library: double quotes around, double quotes doubled.\<close>

definition QuoteIdentifier :: "string \<Rightarrow> string" where
  "QuoteIdentifier name =
     [CHR 0x22] @ concat (map (\<lambda>c. if c = CHR 0x22 then [CHR 0x22, CHR 0x22] else [c]) name) @ [CHR 0x22]"

definition safestr :: "string \<Rightarrow> string" where
  "safestr s =
     (if s = ''position'' \<or> s = ''timestamp'' \<or> s = ''type'' then QuoteIdentifier s else s)"

definition escape :: "string \<Rightarrow> string" where
  "escape s = concat (map (\<lambda>c. if c = CHR 0x27 then [CHR 0x27, c] else [c]) s)"

text \<open>\<open>strings.ToUpper\<close>, on the ASCII letters (the type names of \<open>pg_catalog\<close> are ASCII).\<close>

definition ToUpper :: "string \<Rightarrow> string" where
  "ToUpper s =
     map (\<lambda>c. case map_of (zip ''abcdefghijklmnopqrstuvwxyz'' ''ABCDEFGHIJKLMNOPQRSTUVWXYZ'') c of
                 Some u \<Rightarrow> u | None \<Rightarrow> c) s"

section \<open>Loops\<close>

text \<open>
  A Go loop \<open>for i, x := range xs { ... }\<close> whose body returns from the function on an error:
  \<open>body i x s\<close> is the body at index \<open>i\<close> and element \<open>x\<close> in state \<open>s\<close>.
\<close>

fun forRange ::
  "(nat \<Rightarrow> 'a \<Rightarrow> 's \<Rightarrow> error option \<times> 's) \<Rightarrow> nat \<Rightarrow> 'a list \<Rightarrow> 's \<Rightarrow> error option \<times> 's" where
  "forRange body i [] s = (None, s)"
| "forRange body i (x # xs) s =
     (case body i x s of
        (Some err, s) \<Rightarrow> (Some err, s)
      | (None, s) \<Rightarrow> forRange body (Suc i) xs s)"

definition commaSeparated ::
  "node list \<Rightarrow> environ \<Rightarrow> (node \<Rightarrow> environ \<Rightarrow> wstate \<Rightarrow> result) \<Rightarrow> wstate \<Rightarrow> result" where
  "commaSeparated nodelist env f w =
     forRange (\<lambda>i node (env, w). f node env (if i > 0 then Fprint '', '' w else w)) 0 nodelist (env, w)"

text \<open>\<open>if err != nil { return errors.Wrap(err, msg) }\<close> at the end of a function.\<close>

definition wrapErr :: "string \<Rightarrow> error option \<times> 's \<Rightarrow> error option \<times> 's" where
  "wrapErr msg r = (case r of (Some err, s) \<Rightarrow> (Some (Wrap err msg), s) | (None, s) \<Rightarrow> (None, s))"

section \<open>The transformer: methods that do not recurse\<close>

definition specialCaseBoolLiteral :: "node \<Rightarrow> typeName option \<Rightarrow> wstate \<Rightarrow> bool \<times> wstate" where
  "specialCaseBoolLiteral arg typeName w =
     (case arg of
        A_Const val \<Rightarrow>
          (case val of
             String s \<Rightarrow>
               (case typeName of
                  None \<Rightarrow> (False, w)
                | Some (TypeName names arrayBounds typmods) \<Rightarrow>
                    if length names \<noteq> 2 then (False, w)
                    else if names ! 0 \<noteq> String ''pg_catalog'' then (False, w)
                    else if names ! 1 \<noteq> String ''bool'' then (False, w)
                    else if s = ''t'' then (True, Fprint ''true'' w)
                    else if s = ''f'' then (True, Fprint ''false'' w)
                    else (False, w))
           | _ \<Rightarrow> (False, w))
      | _ \<Rightarrow> (False, w))"

definition transformIndexElem :: "string option \<Rightarrow> wstate \<Rightarrow> error option \<times> wstate" where
  "transformIndexElem name w =
     (case name of
        None \<Rightarrow> (Some (Panic ''invalid memory address or nil pointer dereference''), w)
      | Some n \<Rightarrow> (None, Fprint (safestr n) w))"

definition transformIdent :: "node list \<Rightarrow> wstate \<Rightarrow> error option \<times> wstate" where
  "transformIdent items w =
     (case items of
        [] \<Rightarrow> (Some (Errorf ''empty identifier node''), w)
      | item0 # rest \<Rightarrow>
          (case item0 of
             String strItem0 \<Rightarrow>
               (case (case rest of
                        [] \<Rightarrow> Inr strItem0
                      | [item1] \<Rightarrow>
                          if strItem0 \<noteq> ''pg_catalog''
                          then Inl (Errorf ''2-item identifier has \"%s\" prefix, want pg_catalog'')
                          else (case item1 of
                                  String strItem1 \<Rightarrow> Inr (ToUpper strItem1)
                                | _ \<Rightarrow> Inl (Errorf ''identifier item 1 is a %T, want String''))
                      | _ \<Rightarrow> Inl (Errorf ''identifier has %d items, want 1 or 2'')) of
                  Inl err \<Rightarrow> (Some err, w)
                | Inr str \<Rightarrow>
                    (let str = (if str = ''BOOL'' then ''BOOLEAN''
                                else if str = ''INT8'' then ''BIGINT''
                                else if str = ''TIMESTAMPTZ'' then ''TIMESTAMP WITH TIME ZONE''
                                else str)
                     in (None, Fprint str w)))
           | _ \<Rightarrow> (Some (Errorf ''identifier item 0 is a %T, want String''), w)))"

definition transformConst :: "node \<Rightarrow> wstate \<Rightarrow> error option \<times> wstate" where
  "transformConst val w =
     (case val of
        Integer ival \<Rightarrow> (None, Fprint (itoa ival) w)
      | Float str \<Rightarrow> (None, Fprint str w)
      | String str \<Rightarrow> (None, Fprint ([CHR 0x27] @ escape str @ [CHR 0x27]) w)
      | Null \<Rightarrow> (None, Fprint ''NULL'' w)
      | _ \<Rightarrow> (None, w))"

definition transformTypeName :: "typeName \<Rightarrow> wstate \<Rightarrow> error option \<times> wstate" where
  "transformTypeName typeName w =
     (case typeName of
        TypeName names arrayBounds typmods \<Rightarrow>
          (case transformIdent names w of
             (Some err, w) \<Rightarrow> (Some (Wrap err ''transformTypeName''), w)
           | (None, w) \<Rightarrow>
               if length arrayBounds > 0 then
                 (if length arrayBounds > 1
                  then (Some (Errorf ''%d items in TypeName array bounds, want 0 or 1''), w)
                  else (case arrayBounds ! 0 of
                          Integer ival \<Rightarrow>
                            if ival \<noteq> - 1
                            then (Some (Errorf ''TypeName array bounds is %d, want -1''), w)
                            else (None, Fprint ''[]'' w)
                        | _ \<Rightarrow> (Some (Errorf ''TypeName array bounds item is a %T, want Integer''), w)))
               else (None, w)))"

definition maybeSetIsLeftJoinTable :: "environ \<Rightarrow> string \<Rightarrow> environ" where
  "maybeSetIsLeftJoinTable env table =
     (if list_ex (\<lambda>(tbl, status). status = isLeftJoinTable) env then env
      else envSet env table isLeftJoinTable)"

fun extractTablesAux :: "node \<Rightarrow> string list \<Rightarrow> string list" where
  "extractTablesAux (RangeVarN (RangeVar relname alias)) out =
     (case alias of
        Some (Alias aliasname colnames) \<Rightarrow> List.insert aliasname out
      | None \<Rightarrow> List.insert relname out)"
| "extractTablesAux (JoinExpr jointype larg rarg quals unread) out =
     extractTablesAux rarg (extractTablesAux larg out)"
| "extractTablesAux (RangeSubselect subquery alias) out =
     (case alias of
        Some (Alias aliasname colnames) \<Rightarrow> if aliasname \<noteq> '''' then List.insert aliasname out else out
      | None \<Rightarrow> out)"
| "extractTablesAux n out = out"

definition extractTables :: "node list \<Rightarrow> string list" where
  "extractTables from = foldl (\<lambda>m f. extractTablesAux f m) [] from"

fun transformWhereHelper_loop ::
  "transformer \<Rightarrow> string list \<Rightarrow> bool \<Rightarrow> string list \<Rightarrow> bool \<Rightarrow> environ \<Rightarrow> wstate \<Rightarrow> environ \<times> wstate" where
  "transformWhereHelper_loop t tables onConflict [] first env w = (env, w)"
| "transformWhereHelper_loop t tables onConflict (table # rest) first env w =
     (if envGet env table \<noteq> needsTenantID
      then transformWhereHelper_loop t tables onConflict rest first env w
      else
        (let w = (if first then w else Fprint '' AND '' w);
             w = (if length tables > 1 \<or> onConflict then Fprint (table @ ''.'') w else w);
             w = Fprint (TenantIDCol (driver (Conn t)) @ '' = '') w;
             w = addTenantID t w;
             env = envSet env table hasTenantID
         in transformWhereHelper_loop t tables onConflict rest False env w))"

definition transformSelect_star :: "node list \<Rightarrow> error + bool" where
  "transformSelect_star targetItems =
     (case targetItems of
        [targetItem] \<Rightarrow>
          (case targetItem of
             ResTarget name val indirection \<Rightarrow>
               (case val of
                  ColumnRef items \<Rightarrow> (case items of [A_Star] \<Rightarrow> Inr True | _ \<Rightarrow> Inr False)
                | _ \<Rightarrow> Inr False)
           | _ \<Rightarrow> Inl (Errorf ''SELECT target item is a %T, want ResTarget''))
      | _ \<Rightarrow> Inr False)"


text \<open>The types of the methods of the transformer, without the receiver.\<close>

type_synonym nodeFn = "node \<Rightarrow> environ \<Rightarrow> wstate \<Rightarrow> result"
type_synonym helperFn = "node \<Rightarrow> environ \<Rightarrow> wstate \<Rightarrow> (bool \<times> error option) \<times> environ \<times> wstate"
type_synonym selectFn = "selectStmt \<Rightarrow> environ \<Rightarrow> bool \<Rightarrow> wstate \<Rightarrow> result"
type_synonym insertFn = "insertStmt \<Rightarrow> environ \<Rightarrow> wstate \<Rightarrow> result"
type_synonym whereFn = "node \<Rightarrow> environ \<Rightarrow> bool \<Rightarrow> wstate \<Rightarrow> result"
type_synonym whereHelperFn = "node \<Rightarrow> environ \<Rightarrow> bool \<Rightarrow> string list \<Rightarrow> wstate \<Rightarrow> result"
type_synonym cteFn =
  "withClause option \<Rightarrow> environ \<Rightarrow> wstate \<Rightarrow> (string list \<times> error option) \<times> environ \<times> wstate"
type_synonym boolExprFn = "boolExprType \<Rightarrow> node list \<Rightarrow> environ \<Rightarrow> wstate \<Rightarrow> result"
type_synonym subLinkFn = "subLinkType \<Rightarrow> node \<Rightarrow> node \<Rightarrow> environ \<Rightarrow> wstate \<Rightarrow> result"

section \<open>The transformer: the bodies of the recursive methods\<close>

text \<open>
  The methods of the transformer call each other. Each method is written first as its
  body: a definition that takes the methods it calls as arguments, under their own names.
  The loop bodies that call a method are definitions of their own (\<open>transformSelect_sortBy\<close>,
  the function literal of the ORDER BY loop, and \<open>handleCTE_item\<close>).
\<close>

definition transformInsert_body ::
  "transformer \<Rightarrow> cteFn \<Rightarrow> selectFn \<Rightarrow> nodeFn \<Rightarrow> whereFn \<Rightarrow> insertFn" where
  "transformInsert_body t handleCTE transformSelect transformNode transformWhere stmt env w =
     (case stmt of
        InsertStmt relation cols selectStmt onConflictClause returningList withClause \<Rightarrow>
        (case handleCTE withClause env w of
           ((cteNames, Some err), env, w) \<Rightarrow> (Some (Wrap err ''transformInsert''), env, w)
         | ((cteNames, None), env, w) \<Rightarrow>
             (case relation of
                RangeVar relname alias \<Rightarrow>
                  (let w = Fprint (''INSERT INTO '' @ safestr relname @ '' '') w;
                       (env, w) =
                         (case alias of
                            Some (Alias aliasname colnames) \<Rightarrow>
                              (envSet env aliasname needsTenantID,
                               Fprint (''AS '' @ safestr aliasname @ '' '') w)
                          | None \<Rightarrow> (envSet env relname needsTenantID, w));
                       w = Fprint ''('' w
                   in
                     (case forRange
                             (\<lambda>i col w.
                                case col of
                                  ResTarget name val indirection \<Rightarrow>
                                    (case name of
                                       None \<Rightarrow> (Some (Panic ''invalid memory address or nil pointer dereference''), w)
                                     | Some n \<Rightarrow> (None, Fprint (safestr n @ '', '') w))
                                | _ \<Rightarrow> (Some (Errorf ''INSERT INTO (...) item is a %T, want ResTarget''), w))
                             0 cols w of
                        (Some err, w) \<Rightarrow> (Some err, env, w)
                      | (None, w) \<Rightarrow>
                          (let w = Fprint (TenantIDCol (driver (Conn t)) @ '') '') w in
                           case selectStmt of
                             SelectStmtN sel \<Rightarrow>
                               (case sel of
                                  SelectStmt _ _ _ _ _ _ valuesLists _ _ _ _ \<Rightarrow>
                                    (case (case valuesLists of
                                             [] \<Rightarrow>
                                               (let subEnv = foldl (\<lambda>subEnv cteName. envSet subEnv cteName isCTE) newEnv cteNames in
                                                case transformSelect sel subEnv True w of
                                                  (Some err, subEnv, w) \<Rightarrow> (Some (Wrap err ''transformInsert''), env, w)
                                                | (None, subEnv, w) \<Rightarrow> (None, env, w))
                                           | [row] \<Rightarrow>
                                               (case forRange
                                                       (\<lambda>i node (env, w).
                                                          case transformNode node env w of
                                                            (Some err, env, w) \<Rightarrow> (Some (Wrap err ''transformInsert''), env, w)
                                                          | (None, env, w) \<Rightarrow> (None, env, Fprint '', '' w))
                                                       0 row (env, Fprint ''VALUES ('' w) of
                                                  (Some err, env, w) \<Rightarrow> (Some err, env, w)
                                                | (None, env, w) \<Rightarrow> (None, env, Fprint '')'' (addTenantID t w)))
                                           | _ \<Rightarrow>
                                               (Some (Errorf ''SELECT statement has %d items in ValuesLists, want 0 or 1''), env, w)) of
                                       (Some err, env, w) \<Rightarrow> (Some err, env, w)
                                     | (None, env, w) \<Rightarrow>
                                         (case (case onConflictClause of
                                                  None \<Rightarrow> (None, env, w)
                                                | Some (OnConflictClause action infer targetList whereClause ur) \<Rightarrow>
                                                    if action = ONCONFLICT_NONE then (None, env, w)
                                                    else
                                                      (let w = Fprint '' ON CONFLICT '' w in
                                                       case (case infer of
                                                               None \<Rightarrow> (None, w)
                                                             | Some indexElems \<Rightarrow>
                                                                 (case forRange
                                                                         (\<lambda>i node w.
                                                                            case node of
                                                                              IndexElem name ur \<Rightarrow>
                                                                                (case transformIndexElem name w of
                                                                                   (Some err, w) \<Rightarrow> (Some (Wrap err ''transformInsert''), w)
                                                                                 | (None, w) \<Rightarrow> (None, Fprint '', '' w))
                                                                            | _ \<Rightarrow> (Some (Errorf ''ON CONFLICT index element is a %T, want IndexElem''), w))
                                                                         0 indexElems (Fprint ''('' w) of
                                                                    (Some err, w) \<Rightarrow> (Some err, w)
                                                                  | (None, w) \<Rightarrow> (None, Fprint (TenantIDCol (driver (Conn t)) @ '') '') w))) of
                                                         (Some err, w) \<Rightarrow> (Some err, env, w)
                                                       | (None, w) \<Rightarrow>
                                                           (let w = Fprint ''DO '' w in
                                                            case action of
                                                              ONCONFLICT_NOTHING \<Rightarrow> (None, env, Fprint ''NOTHING'' w)
                                                            | ONCONFLICT_UPDATE \<Rightarrow>
                                                                (case commaSeparated targetList env transformNode (Fprint ''UPDATE SET '' w) of
                                                                   (Some err, env, w) \<Rightarrow> (Some (Wrap err ''transformInsert''), env, w)
                                                                 | (None, env, w) \<Rightarrow>
                                                                     if whereClause \<noteq> Nil
                                                                     then wrapErr ''transformInsert'' (transformWhere whereClause env True w)
                                                                     else (None, env, w))
                                                            | ONCONFLICT_NONE \<Rightarrow> (None, env, w)))) of
                                            (Some err, env, w) \<Rightarrow> (Some err, env, w)
                                          | (None, env, w) \<Rightarrow>
                                              if length returningList > 0
                                              then wrapErr ''transformInsert''
                                                     (commaSeparated returningList env transformNode (Fprint '' RETURNING '' w))
                                              else (None, env, w))))
                           | _ \<Rightarrow> (Some (Errorf ''INSERT select statement is a %T, want SelectStmt''), env, w)))))))"

definition transformSelect_sortBy ::
  "nodeFn \<Rightarrow> nodeFn" where
  "transformSelect_sortBy transformNode item env w =
     (case item of
        SortBy node sortbyDir useOp \<Rightarrow>
          (case transformNode node env w of
             (Some err, env, w) \<Rightarrow> (Some err, env, w)
           | (None, env, w) \<Rightarrow>
               (None, env,
                case sortbyDir of
                  SORTBY_ASC \<Rightarrow> Fprint '' ASC'' w
                | SORTBY_DESC \<Rightarrow> Fprint '' DESC'' w
                | _ \<Rightarrow> w))
      | _ \<Rightarrow> (Some (Errorf ''SORT BY clause is a %T, want SortBy''), env, w))"

definition transformSelect_body ::
  "transformer \<Rightarrow> cteFn \<Rightarrow> nodeFn \<Rightarrow> nodeFn \<Rightarrow> whereFn \<Rightarrow> selectFn" where
  "transformSelect_body t handleCTE transformSelectCol transformNode transformWhere stmt env insertStmt w =
     (case stmt of
        SelectStmt distinctClause targetList fromClause whereClause groupClause havingClause
            valuesLists sortClause limitCount withClause unread \<Rightarrow>
        (case handleCTE withClause env w of
           ((cteNames, Some err), env, w) \<Rightarrow> (Some (Wrap err ''transformSelect''), env, w)
         | ((cteNames, None), env, w) \<Rightarrow>
             (let w = Fprint ''SELECT '' w in
              if length distinctClause > 0 then (Some (Errorf ''SELECT DISTINCT not implemented''), env, w)
              else
                (case transformSelect_star targetList of
                   Inl err \<Rightarrow> (Some err, env, w)
                 | Inr star \<Rightarrow>
                     (case (if star then
                              (if insertStmt
                               then (Some (Errorf ''cannot handle INSERT ... SELECT *''), env, Fprint ''*'' w)
                               else (None, env, Fprint ''*'' w))
                            else
                              (case commaSeparated targetList env transformSelectCol w of
                                 (Some err, env, w) \<Rightarrow> (Some (Wrap err ''transformSelect''), env, w)
                               | (None, env, w) \<Rightarrow>
                                   if insertStmt
                                   then (None, env, addTenantID t (if length targetList > 0 then Fprint '', '' w else w))
                                   else (None, env, w))) of
                        (Some err, env, w) \<Rightarrow> (Some err, env, w)
                      | (None, env, w) \<Rightarrow>
                          (case (if length fromClause > 0
                                 then wrapErr ''transformSelect''
                                        (commaSeparated fromClause env transformNode (Fprint '' FROM '' w))
                                 else (None, env, w)) of
                             (Some err, env, w) \<Rightarrow> (Some err, env, w)
                           | (None, env, w) \<Rightarrow>
                               (case transformWhere whereClause env False w of
                                  (Some err, env, w) \<Rightarrow> (Some (Wrap err ''transformSelect''), env, w)
                                | (None, env, w) \<Rightarrow>
                                    (case (if length groupClause > 0
                                           then wrapErr ''transformSelect''
                                                  (commaSeparated groupClause env transformNode (Fprint '' GROUP BY '' w))
                                           else (None, env, w)) of
                                       (Some err, env, w) \<Rightarrow> (Some err, env, w)
                                     | (None, env, w) \<Rightarrow>
                                         (case (if havingClause \<noteq> Nil
                                                then wrapErr ''transformSelect''
                                                       (transformNode havingClause env (Fprint '' HAVING '' w))
                                                else (None, env, w)) of
                                            (Some err, env, w) \<Rightarrow> (Some err, env, w)
                                          | (None, env, w) \<Rightarrow>
                                              (case (if length sortClause > 0
                                                     then wrapErr ''transformSelect''
                                                            (commaSeparated sortClause env
                                                               (transformSelect_sortBy transformNode)
                                                               (Fprint '' ORDER BY '' w))
                                                     else (None, env, w)) of
                                                 (Some err, env, w) \<Rightarrow> (Some err, env, w)
                                               | (None, env, w) \<Rightarrow>
                                                   if limitCount \<noteq> Nil
                                                   then wrapErr ''transformSelect''
                                                          (transformNode limitCount env (Fprint '' LIMIT '' w))
                                                   else (None, env, w)))))))))))"

definition transformWhereHelper_body ::
  "transformer \<Rightarrow> nodeFn \<Rightarrow> boolExprFn \<Rightarrow> whereHelperFn" where
  "transformWhereHelper_body t transformNode transformBoolExpr where env onConflict tables w =
     (if \<not> list_ex (\<lambda>table. envGet env table = needsTenantID) tables
      then transformNode where env w
      else
        (case (if where \<noteq> Nil then
                 (case (case where of
                          BoolExpr boolop args \<Rightarrow>
                            if boolop \<noteq> AND_EXPR then
                              (case transformBoolExpr boolop args env (Fprint ''('' w) of
                                 (Some err, env, w) \<Rightarrow> (Some (Wrap err ''transformWhere''), env, w)
                               | (None, env, w) \<Rightarrow> (None, env, Fprint '')'' w))
                            else wrapErr ''transformWhere'' (transformNode where env w)
                        | _ \<Rightarrow> wrapErr ''transformWhere'' (transformNode where env w)) of
                    (Some err, env, w) \<Rightarrow> (Some err, env, w)
                  | (None, env, w) \<Rightarrow> (None, env, Fprint '' AND '' w))
               else (None, env, w)) of
           (Some err, env, w) \<Rightarrow> (Some err, env, w)
         | (None, env, w) \<Rightarrow>
             (case transformWhereHelper_loop t tables onConflict tables True env w of
                (env, w) \<Rightarrow> (None, env, w))))"

definition handleCTE_item ::
  "selectFn \<Rightarrow> insertFn \<Rightarrow> nat \<Rightarrow> node \<Rightarrow> string list \<times> environ \<times> wstate
     \<Rightarrow> error option \<times> string list \<times> environ \<times> wstate" where
  "handleCTE_item transformSelect transformInsert i cteItem s =
     (case s of
        (cteNames, env, w) \<Rightarrow>
          (let w = (if i > 0 then Fprint '', '' w else w) in
           case cteItem of
             CommonTableExpr ctename ctequery ur \<Rightarrow>
               (let w = Fprint (safestr ctename @ '' AS ('') w;
                    env = envSet env ctename isCTE;
                    cteNames = cteNames @ [ctename]
                in
                  case ctequery of
                    SelectStmtN substmt \<Rightarrow>
                      (case transformSelect substmt newEnv False w of
                         (Some err, subEnv, w) \<Rightarrow> (Some (Wrap err ''handleCTE''), cteNames, env, w)
                       | (None, subEnv, w) \<Rightarrow>
                           (None, cteNames,
                            foldl (\<lambda>env (tbl, state). if state = isCTE then envSet env tbl isCTE else env) env subEnv,
                            Fprint '')'' w))
                  | InsertStmtN substmt \<Rightarrow>
                      (case substmt of
                         InsertStmt _ _ sel _ _ _ \<Rightarrow>
                           if sel = Nil then (Some (Errorf ''Ctequery has no SELECT''), cteNames, env, w)
                           else
                             (case transformInsert substmt newEnv w of
                                (Some err, subEnv, w) \<Rightarrow> (Some (Wrap err ''handleCTE''), cteNames, env, w)
                              | (None, subEnv, w) \<Rightarrow>
                                  (None, cteNames,
                                   foldl (\<lambda>env (tbl, state). if state = isCTE then envSet env tbl isCTE else env) env subEnv,
                                   Fprint '')'' w)))
                  | _ \<Rightarrow> (Some (Errorf ''Ctequery is a %T, want SELECT or INSERT ... SELECT''), cteNames, env, w))
           | _ \<Rightarrow> (Some (Errorf ''Ctequery item is a %T, want CommonTableExpr''), cteNames, env, w)))"

definition handleCTE_body ::
  "selectFn \<Rightarrow> insertFn \<Rightarrow> cteFn" where
  "handleCTE_body transformSelect transformInsert withClause env w =
     (case withClause of
        None \<Rightarrow> (([], None), env, w)
      | Some (WithClause ctes recursive) \<Rightarrow>
          (let w = Fprint ''WITH '' w;
               w = (if recursive then Fprint ''RECURSIVE '' w else w)
           in
             case forRange (handleCTE_item transformSelect transformInsert) 0 ctes ([], env, w) of
               (Some err, cteNames, env, w) \<Rightarrow> (([], Some err), env, w)
             | (None, cteNames, env, w) \<Rightarrow> ((cteNames, None), env, Fprint '' '' w)))"

definition transformSelectCol_body ::
  "nodeFn \<Rightarrow> nodeFn" where
  "transformSelectCol_body transformNode node env w =
     (case node of
        ResTarget name val indirection \<Rightarrow>
          (case transformNode val env w of
             (Some err, env, w) \<Rightarrow> (Some (Wrap err ''transformSelectCol''), env, w)
           | (None, env, w) \<Rightarrow>
               (None, env, (case name of Some n \<Rightarrow> Fprint ('' AS '' @ safestr n) w | None \<Rightarrow> w)))
      | _ \<Rightarrow> (Some (Errorf ''transformSelectCol: got %T, want ResTarget''), env, w))"

definition transformNodeHelper_body ::
  "selectFn \<Rightarrow> nodeFn \<Rightarrow> nodeFn \<Rightarrow> nodeFn \<Rightarrow> boolExprFn \<Rightarrow> subLinkFn \<Rightarrow> whereHelperFn
     \<Rightarrow> helperFn" where
  "transformNodeHelper_body transformSelect transformAtom transformNode transformNodeSafe transformBoolExpr
       transformSubLink transformWhereHelper node env w =
     (case node of
          RangeSubselect subquery alias \<Rightarrow>
           (case subquery of
              SelectStmtN sq \<Rightarrow>
                (let hasAlias = (case alias of Some (Alias aliasname colnames) \<Rightarrow> aliasname \<noteq> '''' | None \<Rightarrow> False);
                     w = (if hasAlias then Fprint ''('' w else w)
                 in
                   case transformSelect sq newEnv False w of
                     (Some err, subEnv, w) \<Rightarrow> ((False, Some (Wrap err ''transformNode (RangeSubselect)'')), env, w)
                   | (None, subEnv, w) \<Rightarrow>
                       (case alias of
                          Some (Alias aliasname colnames) \<Rightarrow>
                            if hasAlias
                            then ((False, None), envSet env aliasname isCTE, Fprint ('') AS '' @ aliasname) w)
                            else ((False, None), env, w)
                        | None \<Rightarrow> ((False, None), env, w)))
            | _ \<Rightarrow> ((False, Some (Errorf ''RangeSubselect with %T subquery not handled'')), env, w))
        | ParamRef number \<Rightarrow>
           ((True, None), env, Fprint (''$'' @ itoa number) w)
        | TypeCast arg typeName \<Rightarrow>
           (case specialCaseBoolLiteral arg typeName w of
              (True, w) \<Rightarrow> ((True, None), env, w)
            | (False, w) \<Rightarrow>
                (case transformAtom arg env w of
                   (Some err, env, w) \<Rightarrow> ((False, Some (Wrap err ''transformNode (TypeCast)'')), env, w)
                 | (None, env, w) \<Rightarrow>
                     (let w = Fprint ''::'' w in
                      case typeName of
                        None \<Rightarrow>
                          ((False, Some (Panic ''invalid memory address or nil pointer dereference'')), env, w)
                      | Some tn \<Rightarrow>
                          (case transformTypeName tn w of (err, w) \<Rightarrow> ((False, err), env, w)))))
        | ResTarget name val indirection \<Rightarrow>
           (let w = (case name of Some n \<Rightarrow> Fprint (safestr n) w | None \<Rightarrow> w);
                w = (if name \<noteq> None \<and> val \<noteq> Nil then Fprint '' = '' w else w)
            in
              if val \<noteq> Nil then
                (case transformNode val env w of
                   (Some err, env, w) \<Rightarrow> ((False, Some (Wrap err ''transformNode (ResTarget)'')), env, w)
                 | (None, env, w) \<Rightarrow> ((val = Nil, None), env, w))
              else ((val = Nil, None), env, w))
        | ColumnRef items \<Rightarrow>
           (case items of
              [] \<Rightarrow> ((False, Some (Errorf ''no fields in ColumnRef node'')), env, w)
            | item0 # rest \<Rightarrow>
                (case transformNodeSafe item0 env w of
                   (Some err, env, w) \<Rightarrow> ((False, Some (Wrap err ''transformNode (ColumnRef)'')), env, w)
                 | (None, env, w) \<Rightarrow>
                     (case rest of
                        [] \<Rightarrow> ((True, None), env, w)
                      | item1 # rest' \<Rightarrow>
                          (let w = Fprint ''.'' w in
                           if item1 = A_Star then ((False, None), env, Fprint ''*'' w)
                           else
                             (case transformNodeSafe item1 env w of
                                (Some err, env, w) \<Rightarrow> ((False, Some (Wrap err ''transformNode (ColumnRef)'')), env, w)
                              | (None, env, w) \<Rightarrow> ((False, None), env, w))))))
        | String str \<Rightarrow>
           ((True, None), env, Fprint str w)
        | A_Expr kind name lexpr rexpr \<Rightarrow>
           (case kind of
              AEXPR_OP \<Rightarrow>
                (case transformNode lexpr env w of
                   (Some err, env, w) \<Rightarrow> ((False, Some (Wrap err ''transformNode (A_Expr/OP)'')), env, w)
                 | (None, env, w) \<Rightarrow>
                     if length name \<noteq> 1 then ((False, Some (Errorf ''%d names for A_Expr operator, want 1'')), env, w)
                     else
                       (case hd name of
                          String op \<Rightarrow>
                            (let w = (if op = ''->'' \<or> op = ''->>'' then Fprint op w else Fprint ('' '' @ op @ '' '') w) in
                             case transformNode rexpr env w of
                               (Some err, env, w) \<Rightarrow> ((False, Some (Wrap err ''transformNode (A_Expr/OP)'')), env, w)
                             | (None, env, w) \<Rightarrow> ((False, None), env, w))
                        | _ \<Rightarrow> ((False, Some (Errorf ''name for A_Expr operator is a %T, want Str'')), env, w)))
            | AEXPR_OP_ANY \<Rightarrow>
                (case transformNode lexpr env w of
                   (Some err, env, w) \<Rightarrow> ((False, Some (Wrap err ''transformNode (A_Expr/OP_ANY'')), env, w)
                 | (None, env, w) \<Rightarrow>
                     if length name \<noteq> 1 then ((False, Some (Errorf ''%d names for A_Expr operator, want 1'')), env, w)
                     else
                       (case hd name of
                          String op \<Rightarrow>
                            (case transformNode rexpr env (Fprint ('' '' @ op @ '' ANY('') w) of
                               (Some err, env, w) \<Rightarrow> ((False, Some (Wrap err ''transformNode (A_Expr/OP_ANY'')), env, w)
                             | (None, env, w) \<Rightarrow> ((False, None), env, Fprint '')'' w))
                        | _ \<Rightarrow> ((False, Some (Errorf ''name for A_Expr operator is a %T, want Str'')), env, w)))
            | AEXPR_NULLIF \<Rightarrow>
                (case transformNode lexpr env (Fprint ''NULLIF('' w) of
                   (Some err, env, w) \<Rightarrow> ((False, Some (Wrap err ''transformNode(A_Expr/NULLIF left subexp)'')), env, w)
                 | (None, env, w) \<Rightarrow>
                     (case transformNode rexpr env (Fprint '', '' w) of
                        (Some err, env, w) \<Rightarrow> ((False, Some (Wrap err ''transformNode(A_Expr/NULLIF right subexp)'')), env, w)
                      | (None, env, w) \<Rightarrow> ((False, None), env, Fprint '')'' w)))
            | _ \<Rightarrow> ((False, Some (Errorf ''A_Expr subtype %v not implemented'')), env, w))
        | FuncCall funcname args aggStar unread \<Rightarrow>
           (case transformIdent funcname w of
              (Some err, w) \<Rightarrow> ((False, Some (Wrap err ''transformNode (FuncCall)'')), env, w)
            | (None, w) \<Rightarrow>
                (let w = Fprint ''('' w in
                 case (if length args = 0 \<and> aggStar then (None, env, Fprint ''*'' w)
                       else commaSeparated args env transformNode w) of
                   (Some err, env, w) \<Rightarrow> ((False, Some (Wrap err ''transformNode (FuncCall)'')), env, w)
                 | (None, env, w) \<Rightarrow> ((True, None), env, Fprint '')'' w)))
        | BoolExpr boolop args \<Rightarrow>
           (case transformBoolExpr boolop args env w of (err, env, w) \<Rightarrow> ((False, err), env, w))
        | SubLink subLinkType testexpr subselect operName \<Rightarrow>
           (case transformSubLink subLinkType testexpr subselect env w of (err, env, w) \<Rightarrow> ((False, err), env, w))
        | A_Const val \<Rightarrow>
           (case transformConst val w of (err, w) \<Rightarrow> ((True, err), env, w))
        | RangeVarN (RangeVar relname alias) \<Rightarrow>
           (let w = Fprint (safestr relname) w in
            case alias of
              Some (Alias aliasname colnames) \<Rightarrow>
                (let w = Fprint ('' '' @ safestr aliasname) w;
                     env = (if envGet env aliasname = noStatus then
                              (let st = envGet env relname;
                                   st = (if st = noStatus then needsTenantID else st)
                               in envSet env aliasname st)
                            else env)
                 in ((False, None), env, w))
            | None \<Rightarrow>
                (let env = (if envGet env relname = noStatus then envSet env relname needsTenantID else env)
                 in ((True, None), env, w)))
        | CoalesceExpr args \<Rightarrow>
           (case commaSeparated args env transformNode (Fprint ''COALESCE('' w) of
              (Some err, env, w) \<Rightarrow> ((False, Some (Wrap err ''transformNode (CoalesceExpr)'')), env, w)
            | (None, env, w) \<Rightarrow> ((True, None), env, Fprint '')'' w))
        | SetToDefault \<Rightarrow>
           ((True, None), env, Fprint ''DEFAULT'' w)
        | NullTest arg nulltesttype \<Rightarrow>
           (case transformNode arg env w of
              (Some err, env, w) \<Rightarrow> ((False, Some (Wrap err ''transformNode (NullTest)'')), env, w)
            | (None, env, w) \<Rightarrow>
                ((False, None), env,
                 case nulltesttype of
                   IS_NULL \<Rightarrow> Fprint '' IS NULL'' w
                 | IS_NOT_NULL \<Rightarrow> Fprint '' IS NOT NULL'' w))
        | CaseExpr arg args defresult \<Rightarrow>
           (if arg \<noteq> Nil then ((False, Some (Errorf ''CASE testexpr WHEN ... not implemented'')), env, w)
            else
              (case forRange
                      (\<lambda>i arg (env, w). wrapErr ''transformNode (CaseExpr Args)'' (transformNode arg env w))
                      0 args (env, Fprint ''CASE '' w) of
                 (Some err, env, w) \<Rightarrow> ((False, Some err), env, w)
               | (None, env, w) \<Rightarrow>
                   (case transformNode defresult env (Fprint '' ELSE '' w) of
                      (Some err, env, w) \<Rightarrow> ((False, Some (Wrap err ''transformNode (CaseExpr Defresult)'')), env, w)
                    | (None, env, w) \<Rightarrow> ((True, None), env, Fprint '' END'' w))))
        | CaseWhen expr result \<Rightarrow>
           (case transformNode expr env (Fprint ''WHEN '' w) of
              (Some err, env, w) \<Rightarrow> ((False, Some (Wrap err ''transformNode (CaseWhen)'')), env, w)
            | (None, env, w) \<Rightarrow>
                (case transformNode result env (Fprint '' THEN '' w) of
                   (Some err, env, w) \<Rightarrow> ((False, Some (Wrap err ''transformNode (CaseWhen)'')), env, w)
                 | (None, env, w) \<Rightarrow> ((True, None), env, w)))
        | JoinExpr jointype larg rarg quals unread \<Rightarrow>
           (let env =
                  (if jointype = JOIN_LEFT then
                     (case larg of
                        RangeVarN n \<Rightarrow>
                          (case n of
                             RangeVar relname alias \<Rightarrow>
                               (case alias of
                                  Some (Alias aliasname colnames) \<Rightarrow> maybeSetIsLeftJoinTable env aliasname
                                | None \<Rightarrow> maybeSetIsLeftJoinTable env relname))
                      | _ \<Rightarrow> env)
                   else env)
            in
              case transformNode larg env w of
                (Some err, env, w) \<Rightarrow> ((False, Some (Wrap err ''transformNode (JoinExpr)'')), env, w)
              | (None, env, w) \<Rightarrow>
                  (case (case jointype of
                           JOIN_INNER \<Rightarrow> Inr (Fprint '' INNER JOIN '' w)
                         | JOIN_LEFT \<Rightarrow> Inr (Fprint '' LEFT JOIN '' w)
                         | _ \<Rightarrow> Inl (Errorf ''JoinExpr subtype %v not implemented'')) of
                     Inl err \<Rightarrow> ((False, Some err), env, w)
                   | Inr w \<Rightarrow>
                       (case transformNode rarg env w of
                          (Some err, env, w) \<Rightarrow> ((False, Some (Wrap err ''transformNode (JoinExpr)'')), env, w)
                        | (None, env, w) \<Rightarrow>
                            if quals \<noteq> Nil then
                              (case transformWhereHelper quals env False (sort (extractTables [larg, rarg])) (Fprint '' ON '' w) of
                                 (Some err, env, w) \<Rightarrow> ((False, Some (Wrap err ''transformNode (JoinExpr)'')), env, w)
                               | (None, env, w) \<Rightarrow> ((False, None), env, w))
                            else ((False, None), env, w))))
        | RangeFunction functions alias coldeflist \<Rightarrow>
           (if length functions \<noteq> 1
            then ((False, Some (Errorf ''%d functions for RangeFunction node, want 1'')), env, w)
            else
              (case functions of
                 [List f] \<Rightarrow>
                   (case f of
                      [] \<Rightarrow> ((False, Some (Errorf ''empty subitems list in Functions.Items[0]'')), env, w)
                    | f0 # frest \<Rightarrow>
                        (case transformNode f0 env w of
                           (Some err, env, w) \<Rightarrow> ((False, Some (Wrap err ''transformNode (RangeFunction)'')), env, w)
                         | (None, env, w) \<Rightarrow>
                             (case alias of
                                Some (Alias aliasname colnames) \<Rightarrow>
                                  (case commaSeparated colnames env
                                          (\<lambda>col env w.
                                             case col of
                                               String s \<Rightarrow> (None, env, Fprint (safestr s) w)
                                             | _ \<Rightarrow> (Some (Errorf ''range function alias is a %T, want String''), env, w))
                                          (Fprint ('' AS '' @ safestr aliasname @ ''('') w) of
                                     (Some err, env, w) \<Rightarrow> ((False, Some (Wrap err ''transformNode (RangeFunction)'')), env, w)
                                   | (None, env, w) \<Rightarrow> ((False, None), env, Fprint '')'' w))
                              | None \<Rightarrow> ((False, None), env, w))))
               | _ \<Rightarrow> ((False, Some (Errorf ''Functions.Items[0] for RangeFunction node is a %T, want List'')), env, w)))
        | RowExpr args colnames \<Rightarrow>
           (case commaSeparated args env transformNode (Fprint ''('' w) of
              (Some err, env, w) \<Rightarrow> ((False, Some (Wrap err ''transformNode (RowExpr)'')), env, w)
            | (None, env, w) \<Rightarrow> ((True, None), env, Fprint '')'' w))
        | SQLValueFunction op \<Rightarrow>
           (case op of
              SVFOP_CURRENT_TIMESTAMP \<Rightarrow> ((True, None), env, Fprint ''NOW()'' w)
            | _ \<Rightarrow> ((False, Some (Errorf ''SQLValueFunction %d not handled'')), env, w))
        | _ \<Rightarrow>
           ((False, Some (Errorf ''node type %T not handled'')), env, w))"

definition transformBoolExpr_body ::
  "nodeFn \<Rightarrow> boolExprFn" where
  "transformBoolExpr_body transformBoolSubexpr boolop args env w =
     (case boolop of
        AND_EXPR \<Rightarrow>
          forRange
            (\<lambda>i arg (env, w).
               wrapErr ''transformBoolExpr (AND)''
                 (transformBoolSubexpr arg env (if i > 0 then Fprint '' AND '' w else w)))
            0 args (env, w)
      | OR_EXPR \<Rightarrow>
          forRange
            (\<lambda>i arg (env, w).
               wrapErr ''transformBoolExpr (OR)''
                 (transformBoolSubexpr arg env (if i > 0 then Fprint '' OR '' w else w)))
            0 args (env, w)
      | NOT_EXPR \<Rightarrow>
          (let w = Fprint ''NOT '' w in
           case args of
             [arg] \<Rightarrow> transformBoolSubexpr arg env w
           | _ \<Rightarrow> (Some (Errorf ''NOT expression has %d subexpressions, want 1''), env, w)))"

definition transformBoolSubexpr_body ::
  "boolExprFn \<Rightarrow> nodeFn \<Rightarrow> nodeFn" where
  "transformBoolSubexpr_body transformBoolExpr transformNode expr env w =
     (case expr of
        BoolExpr boolop args \<Rightarrow>
          (case transformBoolExpr boolop args env (Fprint ''('' w) of
             (Some err, env, w) \<Rightarrow> (Some (Wrap err ''transformBoolSubexpr''), env, w)
           | (None, env, w) \<Rightarrow> (None, env, Fprint '')'' w))
      | _ \<Rightarrow> transformNode expr env w)"

definition transformSubLink_body ::
  "selectFn \<Rightarrow> nodeFn \<Rightarrow> subLinkFn" where
  "transformSubLink_body transformSelect transformNode subLinkType testexpr subselect env w =
     (case subLinkType of
        EXISTS_SUBLINK \<Rightarrow>
          (let w = Fprint ''EXISTS ('' w in
           case subselect of
             SelectStmtN sel \<Rightarrow>
               (case transformSelect sel newEnv False w of
                  (Some err, subEnv, w) \<Rightarrow> (Some (Wrap err ''transformSubLink (EXISTS)''), env, w)
                | (None, subEnv, w) \<Rightarrow> (None, env, Fprint '')'' w))
           | _ \<Rightarrow> (Some (Errorf ''EXISTS subselect is a %T, want SelectStmt''), env, w))
      | ANY_SUBLINK \<Rightarrow>
          (case transformNode testexpr env w of
             (Some err, env, w) \<Rightarrow> (Some (Wrap err ''transformSubLink (ANY)''), env, w)
           | (None, env, w) \<Rightarrow>
               (let w = Fprint '' IN ('' w in
                case subselect of
                  SelectStmtN sel \<Rightarrow>
                    (case transformSelect sel newEnv False w of
                       (Some err, subEnv, w) \<Rightarrow> (Some (Wrap err ''transformSubLink (ANY)''), env, w)
                     | (None, subEnv, w) \<Rightarrow> (None, env, Fprint '')'' w))
                | _ \<Rightarrow> (Some (Errorf ''EXISTS subselect is a %T, want SelectStmt''), env, w)))
      | _ \<Rightarrow> (Some (Errorf ''SubLink type %v not implemented''), env, w))"

section \<open>The transformer: the recursion\<close>

text \<open>
  Each body above depends on the methods it calls only at arguments smaller than its own
  (or no larger, where the callee is a wrapper): the congruence rules say so, and the
  definition of the methods by well-founded recursion uses them.
\<close>

lemma size_list_elem: "x \<in> set xs \<Longrightarrow> size (x :: node) < size_list size xs"
  by (induction xs) auto

lemma forRange_cong [fundef_cong]:
  assumes "xs = ys" "i = j" "s = s'"
    and "\<And>k x u. x \<in> set ys \<Longrightarrow> body k x u = body' k x u"
  shows "forRange body i xs s = forRange body' j ys s'"
  using assms
proof (induction ys arbitrary: xs i j s s')
  case Nil
  then show ?case by simp
next
  case (Cons y ys)
  then show ?case
    by (auto split: prod.splits option.splits)
qed

lemma commaSeparated_cong [fundef_cong]:
  assumes "xs = ys" "env = env'" "w = w'"
    and "\<And>x e u. x \<in> set ys \<Longrightarrow> f x e u = g x e u"
  shows "commaSeparated xs env f w = commaSeparated ys env' g w'"
  unfolding commaSeparated_def using assms
  by (intro forRange_cong) auto

lemma forRange_cong_size:
  assumes "xs = ys" "i = j" "s = s'"
    and "\<And>k x u. x \<in> set ys \<Longrightarrow> size (x :: node) < size_list size ys \<Longrightarrow> body k x u = body' k x u"
  shows "forRange body i xs s = forRange body' j ys s'"
  using assms by (intro forRange_cong) (auto dest: size_list_elem)

lemma commaSeparated_cong_size:
  assumes "xs = ys" "env = env'" "w = w'"
    and "\<And>x e u. x \<in> set ys \<Longrightarrow> size x < size_list size ys \<Longrightarrow> f x e u = g x e u"
  shows "commaSeparated xs env f w = commaSeparated ys env' g w'"
  using assms by (intro commaSeparated_cong) (auto dest: size_list_elem)

lemma Let_body_cong: "M = N \<Longrightarrow> (\<And>x. f x = g x) \<Longrightarrow> Let M f = Let N g"
  by simp

lemmas strong_case_congs =
  prod.case_cong option.case_cong list.case_cong sum.case_cong bool.case_cong if_cong
  node.case_cong rangeVar.case_cong aliasT.case_cong typeName.case_cong withClause.case_cong
  onConflictClause.case_cong insertStmt.case_cong selectStmt.case_cong
  a_Expr_Kind.case_cong boolExprType.case_cong subLinkType.case_cong nullTestType.case_cong
  joinType.case_cong sortByDir.case_cong onConflictAction.case_cong sQLValueFunctionOp.case_cong
  forRange_cong_size commaSeparated_cong_size Let_body_cong

lemma transformSelectCol_body_cong [fundef_cong]:
  assumes "node = node'" "env = env'" "w = w'"
    and "\<And>x e u. size x < size node' \<Longrightarrow> tNode x e u = tNode' x e u"
  shows "transformSelectCol_body tNode node env w = transformSelectCol_body tNode' node' env' w'"
  using assms unfolding transformSelectCol_body_def
  by (simp cong: strong_case_congs)

lemma transformNodeHelper_body_cong [fundef_cong]:
  assumes "node = node'" "env = env'" "w = w'"
    and "\<And>s e b u. size s < size node' \<Longrightarrow> tSelect s e b u = tSelect' s e b u"
    and "\<And>x e u. size x < size node' \<Longrightarrow> tAtom x e u = tAtom' x e u"
    and "\<And>x e u. size x < size node' \<Longrightarrow> tNode x e u = tNode' x e u"
    and "\<And>x e u. size x < size node' \<Longrightarrow> tNodeSafe x e u = tNodeSafe' x e u"
    and "\<And>b xs e u. size_list size xs < size node' \<Longrightarrow> tBoolExpr b xs e u = tBoolExpr' b xs e u"
    and "\<And>k x y e u. size x + size y < size node' \<Longrightarrow> tSubLink k x y e u = tSubLink' k x y e u"
    and "\<And>x e b ts u. size x < size node' \<Longrightarrow> tWhereHelper x e b ts u = tWhereHelper' x e b ts u"
  shows "transformNodeHelper_body tSelect tAtom tNode tNodeSafe tBoolExpr tSubLink tWhereHelper node env w
       = transformNodeHelper_body tSelect' tAtom' tNode' tNodeSafe' tBoolExpr' tSubLink' tWhereHelper'
           node' env' w'"
  using assms unfolding transformNodeHelper_body_def
  by (simp cong: strong_case_congs)

lemma transformSelect_sortBy_cong:
  assumes "item = item'" "env = env'" "w = w'"
    and "\<And>x e u. size x < size item' \<Longrightarrow> tNode x e u = tNode' x e u"
  shows "transformSelect_sortBy tNode item env w = transformSelect_sortBy tNode' item' env' w'"
  using assms unfolding transformSelect_sortBy_def
  by (simp cong: strong_case_congs)

lemma handleCTE_item_cong:
  assumes "i = i'" "cteItem = cteItem'" "s = s'"
    and "\<And>x e b u. size x < size cteItem' \<Longrightarrow> tSelect x e b u = tSelect' x e b u"
    and "\<And>x e u. size x < size cteItem' \<Longrightarrow> tInsert x e u = tInsert' x e u"
  shows "handleCTE_item tSelect tInsert i cteItem s = handleCTE_item tSelect' tInsert' i' cteItem' s'"
  using assms unfolding handleCTE_item_def
  by (simp cong: strong_case_congs)

lemma transformInsert_body_cong [fundef_cong]:
  assumes "t = t'" "stmt = stmt'" "env = env'" "w = w'"
    and "\<And>c e u. size_option size c < size stmt' \<Longrightarrow> hCTE c e u = hCTE' c e u"
    and "\<And>s e b u. size s < size stmt' \<Longrightarrow> tSelect s e b u = tSelect' s e b u"
    and "\<And>x e u. size x < size stmt' \<Longrightarrow> tNode x e u = tNode' x e u"
    and "\<And>x e b u. size x < size stmt' \<Longrightarrow> tWhere x e b u = tWhere' x e b u"
  shows "transformInsert_body t hCTE tSelect tNode tWhere stmt env w
       = transformInsert_body t' hCTE' tSelect' tNode' tWhere' stmt' env' w'"
  using assms unfolding transformInsert_body_def
  by (simp cong: strong_case_congs)

lemma transformSelect_body_cong [fundef_cong]:
  assumes "t = t'" "stmt = stmt'" "env = env'" "insertStmt = insertStmt'" "w = w'"
    and "\<And>c e u. size_option size c < size stmt' \<Longrightarrow> hCTE c e u = hCTE' c e u"
    and "\<And>x e u. size x < size stmt' \<Longrightarrow> tSelectCol x e u = tSelectCol' x e u"
    and "\<And>x e u. size x < size stmt' \<Longrightarrow> tNode x e u = tNode' x e u"
    and "\<And>x e b u. size x < size stmt' \<Longrightarrow> tWhere x e b u = tWhere' x e b u"
  shows "transformSelect_body t hCTE tSelectCol tNode tWhere stmt env insertStmt w
       = transformSelect_body t' hCTE' tSelectCol' tNode' tWhere' stmt' env' insertStmt' w'"
  using assms unfolding transformSelect_body_def
  by (simp cong: strong_case_congs transformSelect_sortBy_cong)

lemma transformWhereHelper_body_cong [fundef_cong]:
  assumes "t = t'" "where = where'" "env = env'" "onConflict = onConflict'" "tables = tables'" "w = w'"
    and "\<And>x e u. size x \<le> size where' \<Longrightarrow> tNode x e u = tNode' x e u"
    and "\<And>b xs e u. size_list size xs < size where' \<Longrightarrow> tBoolExpr b xs e u = tBoolExpr' b xs e u"
  shows "transformWhereHelper_body t tNode tBoolExpr where env onConflict tables w
       = transformWhereHelper_body t' tNode' tBoolExpr' where' env' onConflict' tables' w'"
  using assms unfolding transformWhereHelper_body_def
  by (simp cong: strong_case_congs)

lemma handleCTE_body_cong [fundef_cong]:
  assumes "withClause = withClause'" "env = env'" "w = w'"
    and "\<And>s e b u. size s < size_option size withClause' \<Longrightarrow> tSelect s e b u = tSelect' s e b u"
    and "\<And>s e u. size s < size_option size withClause' \<Longrightarrow> tInsert s e u = tInsert' s e u"
  shows "handleCTE_body tSelect tInsert withClause env w = handleCTE_body tSelect' tInsert' withClause' env' w'"
  using assms unfolding handleCTE_body_def
  by (simp cong: strong_case_congs handleCTE_item_cong)

lemma transformBoolExpr_body_cong [fundef_cong]:
  assumes "boolop = boolop'" "args = args'" "env = env'" "w = w'"
    and "\<And>x e u. size x < size_list size args' \<Longrightarrow> tBoolSubexpr x e u = tBoolSubexpr' x e u"
  shows "transformBoolExpr_body tBoolSubexpr boolop args env w
       = transformBoolExpr_body tBoolSubexpr' boolop' args' env' w'"
  using assms unfolding transformBoolExpr_body_def
  by (simp cong: strong_case_congs)

lemma transformBoolSubexpr_body_cong [fundef_cong]:
  assumes "expr = expr'" "env = env'" "w = w'"
    and "\<And>b xs e u. size_list size xs < size expr' \<Longrightarrow> tBoolExpr b xs e u = tBoolExpr' b xs e u"
    and "\<And>x e u. size x \<le> size expr' \<Longrightarrow> tNode x e u = tNode' x e u"
  shows "transformBoolSubexpr_body tBoolExpr tNode expr env w
       = transformBoolSubexpr_body tBoolExpr' tNode' expr' env' w'"
  using assms unfolding transformBoolSubexpr_body_def
  by (simp cong: strong_case_congs)

lemma transformSubLink_body_cong [fundef_cong]:
  assumes "subLinkType = subLinkType'" "testexpr = testexpr'" "subselect = subselect'" "env = env'" "w = w'"
    and "\<And>s e b u. size s < size testexpr' + size subselect' \<Longrightarrow> tSelect s e b u = tSelect' s e b u"
    and "\<And>x e u. size x \<le> size testexpr' + size subselect' \<Longrightarrow> tNode x e u = tNode' x e u"
  shows "transformSubLink_body tSelect tNode subLinkType testexpr subselect env w
       = transformSubLink_body tSelect' tNode' subLinkType' testexpr' subselect' env' w'"
  using assms unfolding transformSubLink_body_def
  by (simp cong: strong_case_congs)

text \<open>
  The methods of \<open>*transformer\<close>. \<open>transformWhere\<close>, \<open>transformAtom\<close>, \<open>transformNode\<close> and
  \<open>transformNodeSafe\<close> are written out; the others are their bodies, applied to the methods.
  In \<open>transformAtom\<close> the helper writes into a buffer of its own, which \<open>transformAtom\<close>
  copies to its writer, in parentheses unless the node is atomic, and only when there was
  no error.
\<close>

function
    transformInsert :: "transformer \<Rightarrow> insertFn"
and transformSelect :: "transformer \<Rightarrow> selectFn"
and transformWhere :: "transformer \<Rightarrow> whereFn"
and transformWhereHelper :: "transformer \<Rightarrow> whereHelperFn"
and handleCTE :: "transformer \<Rightarrow> cteFn"
and transformSelectCol :: "transformer \<Rightarrow> nodeFn"
and transformAtom :: "transformer \<Rightarrow> nodeFn"
and transformNode :: "transformer \<Rightarrow> nodeFn"
and transformNodeHelper :: "transformer \<Rightarrow> helperFn"
and transformNodeSafe :: "transformer \<Rightarrow> nodeFn"
and transformBoolExpr :: "transformer \<Rightarrow> boolExprFn"
and transformBoolSubexpr :: "transformer \<Rightarrow> nodeFn"
and transformSubLink :: "transformer \<Rightarrow> subLinkFn"
where
  "transformInsert t stmt env w =
     transformInsert_body t (handleCTE t) (transformSelect t) (transformNode t) (transformWhere t)
       stmt env w"
| "transformSelect t stmt env insertStmt w =
     transformSelect_body t (handleCTE t) (transformSelectCol t) (transformNode t) (transformWhere t)
       stmt env insertStmt w"
| "transformWhere t where env onConflict w =
     (let env = (case find (\<lambda>(tbl, status). status = isLeftJoinTable) env of
                   Some (tbl, status) \<Rightarrow> envSet env tbl needsTenantID
                 | None \<Rightarrow> env);
          doWhere = (where \<noteq> Nil);
          doWhere = (if \<not> doWhere then list_ex (\<lambda>(tbl, state). state = needsTenantID) env else doWhere)
      in
        if \<not> doWhere then (None, env, w)
        else transformWhereHelper t where env onConflict (sort (map fst env)) (Fprint '' WHERE '' w))"
| "transformWhereHelper t where env onConflict tables w =
     transformWhereHelper_body t (transformNode t) (transformBoolExpr t) where env onConflict tables w"
| "handleCTE t withClause env w =
     handleCTE_body (transformSelect t) (transformInsert t) withClause env w"
| "transformSelectCol t node env w = transformSelectCol_body (transformNode t) node env w"
| "transformAtom t node env w =
     (case transformNodeHelper t node env (w\<lparr>buf := []\<rparr>) of
        ((isAtomic, Some err), env, wb) \<Rightarrow> (Some err, env, wb\<lparr>buf := buf w\<rparr>)
      | ((isAtomic, None), env, wb) \<Rightarrow>
          (None, env, wb\<lparr>buf := buf w @ (if isAtomic then buf wb else ''('' @ buf wb @ '')'')\<rparr>))"
| "transformNode t node env w =
     (case transformNodeHelper t node env w of ((isAtomic, err), env, w) \<Rightarrow> (err, env, w))"
| "transformNodeHelper t node env w =
     transformNodeHelper_body (transformSelect t) (transformAtom t) (transformNode t)
       (transformNodeSafe t) (transformBoolExpr t) (transformSubLink t) (transformWhereHelper t)
       node env w"
| "transformNodeSafe t node env w =
     (case node of
        String s \<Rightarrow> (None, env, Fprint (safestr s) w)
      | _ \<Rightarrow> transformNode t node env w)"
| "transformBoolExpr t boolop args env w =
     transformBoolExpr_body (transformBoolSubexpr t) boolop args env w"
| "transformBoolSubexpr t expr env w =
     transformBoolSubexpr_body (transformBoolExpr t) (transformNode t) expr env w"
| "transformSubLink t subLinkType testexpr subselect env w =
     transformSubLink_body (transformSelect t) (transformNode t) subLinkType testexpr subselect env w"
  by pat_completeness auto

termination
  by (relation "measure
        (case_sum
          (case_sum
            (case_sum (\<lambda>(t, stmt, env, w). 4 * size stmt)
              (case_sum (\<lambda>(t, stmt, env, ins, w). 4 * size stmt)
                        (\<lambda>(t, n, env, oc, w). 4 * size n + 3)))
            (case_sum (\<lambda>(t, n, env, oc, tables, w). 4 * size n + 2)
              (case_sum (\<lambda>(t, wc, env, w). 4 * size_option size wc)
                        (\<lambda>(t, n, env, w). 4 * size n))))
          (case_sum
            (case_sum (\<lambda>(t, n, env, w). 4 * size n + 1)
              (case_sum (\<lambda>(t, n, env, w). 4 * size n + 1)
                        (\<lambda>(t, n, env, w). 4 * size n)))
            (case_sum
              (case_sum (\<lambda>(t, n, env, w). 4 * size n + 2)
                        (\<lambda>(t, b, args, env, w). 4 * size_list size args))
              (case_sum (\<lambda>(t, n, env, w). 4 * size n + 2)
                        (\<lambda>(t, k, te, ss, env, w). 4 * (size te + size ss) + 2)))))")
     auto

declare transformInsert.simps [simp del] transformSelect.simps [simp del]
  transformWhere.simps [simp del] transformWhereHelper.simps [simp del] handleCTE.simps [simp del]
  transformSelectCol.simps [simp del] transformAtom.simps [simp del] transformNode.simps [simp del]
  transformNodeHelper.simps [simp del] transformNodeSafe.simps [simp del]
  transformBoolExpr.simps [simp del] transformBoolSubexpr.simps [simp del]
  transformSubLink.simps [simp del]

section \<open>Statements and the rewrite of a parse tree\<close>

text \<open>
  \<open>transformUpdate\<close> and \<open>transformDelete\<close> take the fields of the statement
  (\<open>nodes.UpdateStmt\<close>, \<open>nodes.DeleteStmt\<close>) one by one.
\<close>

definition transformUpdate ::
  "transformer \<Rightarrow> rangeVar \<Rightarrow> node list \<Rightarrow> node \<Rightarrow> node list \<Rightarrow> node list \<Rightarrow> withClause option
     \<Rightarrow> environ \<Rightarrow> wstate \<Rightarrow> result" where
  "transformUpdate t relation targetList whereClause fromClause returningList withClause env w =
     (case handleCTE t withClause env w of
        ((cteNames, Some err), env, w) \<Rightarrow> (Some (Wrap err ''transformUpdate''), env, w)
      | ((cteNames, None), env, w) \<Rightarrow>
          (case transformNode t (RangeVarN relation) env (Fprint ''UPDATE '' w) of
             (Some err, env, w) \<Rightarrow> (Some (Wrap err ''transformUpdate''), env, w)
           | (None, env, w) \<Rightarrow>
               (case commaSeparated targetList env (transformNode t) (Fprint '' SET '' w) of
                  (Some err, env, w) \<Rightarrow> (Some (Wrap err ''transformUpdate''), env, w)
                | (None, env, w) \<Rightarrow>
                    (case (if length fromClause > 0
                           then wrapErr ''transformUpdate''
                                  (commaSeparated fromClause env (transformNode t) (Fprint '' FROM '' w))
                           else (None, env, w)) of
                       (Some err, env, w) \<Rightarrow> (Some err, env, w)
                     | (None, env, w) \<Rightarrow>
                         if whereClause = Nil
                         then (None, env,
                               addTenantID t (Fprint ('' WHERE '' @ TenantIDCol (driver (Conn t)) @ '' = '') w))
                         else
                           (case transformWhere t whereClause env False w of
                              (Some err, env, w) \<Rightarrow> (Some (Wrap err ''transformUpdate''), env, w)
                            | (None, env, w) \<Rightarrow>
                                if length returningList > 0
                                then wrapErr ''transformUpdate''
                                       (commaSeparated returningList env (transformNode t)
                                          (Fprint '' RETURNING '' w))
                                else (None, env, w))))))"

definition transformDelete ::
  "transformer \<Rightarrow> rangeVar \<Rightarrow> node list \<Rightarrow> node \<Rightarrow> environ \<Rightarrow> wstate \<Rightarrow> result" where
  "transformDelete t relation usingClause whereClause env w =
     (case transformNode t (RangeVarN relation) env (Fprint ''DELETE FROM '' w) of
        (Some err, env, w) \<Rightarrow> (Some (Wrap err ''transformDelete''), env, w)
      | (None, env, w) \<Rightarrow>
          (case (if length usingClause > 0
                 then wrapErr ''transformDelete''
                        (commaSeparated usingClause env (transformNode t) (Fprint '' USING '' w))
                 else (None, env, w)) of
             (Some err, env, w) \<Rightarrow> (Some err, env, w)
           | (None, env, w) \<Rightarrow> transformWhere t whereClause env False w))"

text \<open>
  \<open>transformStmt\<close> writes into a new buffer and returns its contents together with the
  error, also when there is an error. The flag \<open>isTransformed\<close> of the transformer lives on.
\<close>

function transformStmt :: "transformer \<Rightarrow> node \<Rightarrow> wstate \<Rightarrow> (string \<times> error option) \<times> wstate" where
  "transformStmt t stmt w =
     (case stmt of
        RawStmt raw \<Rightarrow> transformStmt t raw w
      | InsertStmtN stmt \<Rightarrow>
          (case transformInsert t stmt newEnv (w\<lparr>buf := []\<rparr>) of (err, env, w) \<Rightarrow> ((buf w, err), w))
      | SelectStmtN stmt \<Rightarrow>
          (case transformSelect t stmt newEnv False (w\<lparr>buf := []\<rparr>) of (err, env, w) \<Rightarrow> ((buf w, err), w))
      | UpdateStmt relation targetList whereClause fromClause returningList withClause \<Rightarrow>
          (case transformUpdate t relation targetList whereClause fromClause returningList withClause
                  newEnv (w\<lparr>buf := []\<rparr>) of
             (err, env, w) \<Rightarrow> ((buf w, err), w))
      | DeleteStmt relation usingClause whereClause unread \<Rightarrow>
          (case transformDelete t relation usingClause whereClause newEnv (w\<lparr>buf := []\<rparr>) of
             (err, env, w) \<Rightarrow> ((buf w, err), w))
      | _ \<Rightarrow> (([], Some (Errorf ''unknown statement type %T'')), w))"
  by pat_completeness auto
termination
  by (relation "measure (\<lambda>(t, stmt, w). size stmt)") auto

declare transformStmt.simps [simp del]

text \<open>A \<open>pg_query.ParsetreeList\<close> is the list of its statements.\<close>

definition transformTree :: "transformer \<Rightarrow> node list \<Rightarrow> wstate \<Rightarrow> (string \<times> error option) \<times> wstate" where
  "transformTree t statements w =
     (if length statements \<noteq> 1
      then (([], Some (Errorf ''%d statements in parse tree, want 1'')), w)
      else transformStmt t (statements ! 0) w)"

subsection \<open>The parameter scanner\<close>

text \<open>
  \<open>findMaxParam\<close> walks a value by reflection. A \<open>ParamRef\<close> gives its number; a nil pointer
  or interface, and a value that is neither pointer, interface, struct, slice nor array,
  gives 0; a struct gives the result of the loop \<open>maxResult\<close> over its fields, a slice over
  its elements. In the lists of fields below, a \<open>0\<close> stands for the fields of the struct
  that hold no node (numbers, strings, enumerations, the \<open>Xpr\<close> field, which the parser
  leaves nil); a \<open>nodes.List\<close> is a struct with the one field \<open>Items\<close>.
\<close>

definition maxResult :: "int list \<Rightarrow> int" where
  "maxResult rs =
     (case rs of
        [] \<Rightarrow> 0
      | r # rest \<Rightarrow> foldl (\<lambda>result subresult. if subresult > result then subresult else result) r rest)"

primrec findMaxParam :: "node \<Rightarrow> int"
  and findMaxParam_rangeVar :: "rangeVar \<Rightarrow> int"
  and findMaxParam_alias :: "aliasT \<Rightarrow> int"
  and findMaxParam_typeName :: "typeName \<Rightarrow> int"
  and findMaxParam_withClause :: "withClause \<Rightarrow> int"
  and findMaxParam_onConflictClause :: "onConflictClause \<Rightarrow> int"
  and findMaxParam_insertStmt :: "insertStmt \<Rightarrow> int"
  and findMaxParam_selectStmt :: "selectStmt \<Rightarrow> int"
where
  "findMaxParam Nil = 0"
| "findMaxParam (RawStmt stmt) = maxResult [findMaxParam stmt, 0]"
| "findMaxParam (InsertStmtN s) = findMaxParam_insertStmt s"
| "findMaxParam (SelectStmtN s) = findMaxParam_selectStmt s"
| "findMaxParam (UpdateStmt relation targetList whereClause fromClause returningList withClause) =
     maxResult [findMaxParam_rangeVar relation, maxResult (map findMaxParam targetList),
                findMaxParam whereClause, maxResult (map findMaxParam fromClause),
                maxResult (map findMaxParam returningList),
                (case map_option findMaxParam_withClause withClause of None \<Rightarrow> 0 | Some r \<Rightarrow> r)]"
| "findMaxParam (DeleteStmt relation usingClause whereClause unread) =
     maxResult [findMaxParam_rangeVar relation, maxResult (map findMaxParam usingClause),
                findMaxParam whereClause, maxResult (map findMaxParam unread)]"
| "findMaxParam (RangeSubselect subquery alias) =
     maxResult [0, findMaxParam subquery,
                (case map_option findMaxParam_alias alias of None \<Rightarrow> 0 | Some r \<Rightarrow> r)]"
| "findMaxParam (ParamRef number) = number"
| "findMaxParam (TypeCast arg typeName) =
     maxResult [findMaxParam arg,
                (case map_option findMaxParam_typeName typeName of None \<Rightarrow> 0 | Some r \<Rightarrow> r), 0]"
| "findMaxParam (ResTarget name val indirection) =
     maxResult [0, maxResult (map findMaxParam indirection), findMaxParam val, 0]"
| "findMaxParam (ColumnRef items) = maxResult [maxResult (map findMaxParam items), 0]"
| "findMaxParam (String str) = 0"
| "findMaxParam (A_Expr kind name lexpr rexpr) =
     maxResult [0, maxResult (map findMaxParam name), findMaxParam lexpr, findMaxParam rexpr, 0]"
| "findMaxParam (FuncCall funcname args aggStar unread) =
     maxResult [maxResult (map findMaxParam funcname), maxResult (map findMaxParam args),
                maxResult (map findMaxParam unread), 0]"
| "findMaxParam (BoolExpr boolop args) = maxResult [0, maxResult (map findMaxParam args), 0]"
| "findMaxParam (SubLink subLinkType testexpr subselect operName) =
     maxResult [0, findMaxParam testexpr, maxResult (map findMaxParam operName),
                findMaxParam subselect, 0]"
| "findMaxParam (A_Const val) = maxResult [findMaxParam val, 0]"
| "findMaxParam (RangeVarN rv) = findMaxParam_rangeVar rv"
| "findMaxParam (CoalesceExpr args) = maxResult [0, maxResult (map findMaxParam args), 0]"
| "findMaxParam SetToDefault = 0"
| "findMaxParam (NullTest arg nulltesttype) = maxResult [findMaxParam arg, 0]"
| "findMaxParam (CaseExpr arg args defresult) =
     maxResult [0, findMaxParam arg, maxResult (map findMaxParam args), findMaxParam defresult, 0]"
| "findMaxParam (CaseWhen expr result) = maxResult [findMaxParam expr, findMaxParam result, 0]"
| "findMaxParam (JoinExpr jointype larg rarg quals unread) =
     maxResult [0, findMaxParam larg, findMaxParam rarg, maxResult (map findMaxParam unread),
                findMaxParam quals, 0]"
| "findMaxParam (RangeFunction functions alias coldeflist) =
     maxResult [0, maxResult (map findMaxParam functions),
                (case map_option findMaxParam_alias alias of None \<Rightarrow> 0 | Some r \<Rightarrow> r),
                maxResult (map findMaxParam coldeflist)]"
| "findMaxParam (RowExpr args colnames) =
     maxResult [maxResult (map findMaxParam args), 0, maxResult (map findMaxParam colnames), 0]"
| "findMaxParam (SQLValueFunction op) = 0"
| "findMaxParam A_Star = 0"
| "findMaxParam (Integer ival) = 0"
| "findMaxParam (Float str) = 0"
| "findMaxParam Null = 0"
| "findMaxParam (BitString str) = 0"
| "findMaxParam (SortBy node sortbyDir useOp) =
     maxResult [findMaxParam node, 0, maxResult (map findMaxParam useOp), 0]"
| "findMaxParam (List items) = maxResult [maxResult (map findMaxParam items)]"
| "findMaxParam (CommonTableExpr ctename ctequery unread) =
     maxResult [0, findMaxParam ctequery, maxResult (map findMaxParam unread), 0]"
| "findMaxParam (IndexElem name unread) = maxResult [0, maxResult (map findMaxParam unread), 0]"
| "findMaxParam (OtherNode typ children) = maxResult [maxResult (map findMaxParam children), 0]"
| "findMaxParam_rangeVar (RangeVar relname alias) =
     maxResult [0, (case map_option findMaxParam_alias alias of None \<Rightarrow> 0 | Some r \<Rightarrow> r), 0]"
| "findMaxParam_alias (Alias aliasname colnames) = maxResult [0, maxResult (map findMaxParam colnames)]"
| "findMaxParam_typeName (TypeName names arrayBounds typmods) =
     maxResult [maxResult (map findMaxParam names), 0, maxResult (map findMaxParam typmods),
                maxResult (map findMaxParam arrayBounds), 0]"
| "findMaxParam_withClause (WithClause ctes recursive) = maxResult [maxResult (map findMaxParam ctes), 0]"
| "findMaxParam_onConflictClause (OnConflictClause action infer targetList whereClause unread) =
     maxResult [0,
                (case map_option (map findMaxParam) infer of
                   None \<Rightarrow> 0
                 | Some rs \<Rightarrow> maxResult [maxResult rs, maxResult (map findMaxParam unread), 0]),
                maxResult (map findMaxParam targetList), findMaxParam whereClause, 0]"
| "findMaxParam_insertStmt (InsertStmt relation cols selectStmt onConflictClause returningList withClause) =
     maxResult [findMaxParam_rangeVar relation, maxResult (map findMaxParam cols),
                findMaxParam selectStmt,
                (case map_option findMaxParam_onConflictClause onConflictClause of None \<Rightarrow> 0 | Some r \<Rightarrow> r),
                maxResult (map findMaxParam returningList),
                (case map_option findMaxParam_withClause withClause of None \<Rightarrow> 0 | Some r \<Rightarrow> r), 0]"
| "findMaxParam_selectStmt (SelectStmt distinctClause targetList fromClause whereClause groupClause
       havingClause valuesLists sortClause limitCount withClause unread) =
     maxResult [maxResult (map findMaxParam distinctClause), maxResult (map findMaxParam targetList),
                maxResult (map findMaxParam fromClause), findMaxParam whereClause,
                maxResult (map findMaxParam groupClause), findMaxParam havingClause,
                maxResult (map maxResult (map (map findMaxParam) valuesLists)),
                maxResult (map findMaxParam sortClause), findMaxParam limitCount,
                (case map_option findMaxParam_withClause withClause of None \<Rightarrow> 0 | Some r \<Rightarrow> r),
                maxResult (map findMaxParam unread), 0]"


definition findMaxParam_tree :: "node list \<Rightarrow> int" where
  "findMaxParam_tree tree = maxResult [maxResult (map findMaxParam tree)]"

subsection \<open>doTransform (conn.go)\<close>

text \<open>
  The numbers are Go \<open>int\<close>s, 64 bits wide: \<open>int64\<close> is the wrap-around of an addition.
\<close>

definition int64 :: "int \<Rightarrow> int" where
  "int64 i = (i + 2 ^ 63) mod 2 ^ 64 - 2 ^ 63"

definition doTransform :: "conn \<Rightarrow> node list \<Rightarrow> string \<times> int \<times> error option" where
  "doTransform c tree =
     (let num = int64 (1 + findMaxParam_tree tree);
          t = \<lparr>Conn = c, tenantIDNum = num\<rparr>
      in
        case transformTree t tree \<lparr>buf = [], isTransformed = False\<rparr> of
          ((res, Some err), w) \<Rightarrow> ([], 0, Some err)
        | ((res, None), w) \<Rightarrow> (res, (if \<not> isTransformed w then 0 else num), None))"

section \<open>The rewrite cache and the driver-facing operation\<close>

text \<open>
  \<open>lru.Cache\<close> of the groupcache library, with \<open>MaxEntries\<close> entries at most: \<open>Get\<close> moves
  the entry found to the front; \<open>Add\<close> replaces the value of a key that is present and
  moves it to the front, or puts a new entry at the front and then removes the oldest one
  if the cache has grown beyond \<open>MaxEntries\<close>.
\<close>

definition maxCachedQueries :: nat where
  "maxCachedQueries = 1000"

definition lru_Get :: "string \<Rightarrow> (string \<times> transformed) list \<Rightarrow> transformed option \<times> (string \<times> transformed) list" where
  "lru_Get key entries =
     (case map_of entries key of
        None \<Rightarrow> (None, entries)
      | Some v \<Rightarrow> (Some v, (key, v) # filter (\<lambda>(k, v). k \<noteq> key) entries))"

definition lru_Add ::
  "nat \<Rightarrow> string \<Rightarrow> transformed \<Rightarrow> (string \<times> transformed) list \<Rightarrow> (string \<times> transformed) list" where
  "lru_Add maxEntries key val entries =
     (case map_of entries key of
        Some v \<Rightarrow> (key, val) # filter (\<lambda>(k, v). k \<noteq> key) entries
      | None \<Rightarrow>
          (let entries = (key, val) # entries
           in if maxEntries \<noteq> 0 \<and> length entries > maxEntries then butlast entries else entries))"

definition lookup :: "queryCache \<Rightarrow> string \<Rightarrow> (transformed \<times> bool) \<times> queryCache" where
  "lookup qc q =
     (case cache qc of
        None \<Rightarrow> ((\<lparr>Query = [], Num = 0\<rparr>, False), qc)
      | Some c \<Rightarrow>
          (case lru_Get q c of
             (Some v, c) \<Rightarrow> ((v, True), qc\<lparr>cache := Some c\<rparr>)
           | (None, c) \<Rightarrow> ((\<lparr>Query = [], Num = 0\<rparr>, False), qc)))"

definition add :: "queryCache \<Rightarrow> string \<Rightarrow> transformed \<Rightarrow> queryCache" where
  "add qc q transformed =
     (let c = (case cache qc of None \<Rightarrow> [] | Some c \<Rightarrow> c)
      in qc\<lparr>cache := Some (lru_Add maxCachedQueries q transformed c)\<rparr>)"

text \<open>
  A context carries, under \<open>queryKey\<close>, the query attached by \<open>WithQuery\<close>, if any.
  The parser \<open>pg_query.Parse\<close> is a parameter of \<open>transform\<close>. The driver of a connection is
  shared through a pointer: \<open>transform\<close> returns the connection with the driver as it has
  left it.
\<close>

record "context" =
  queryKey :: "string option"

definition transform ::
  "(string \<Rightarrow> error + node list) \<Rightarrow> conn \<Rightarrow> context \<Rightarrow> string \<Rightarrow> (string \<times> int \<times> error option) \<times> conn" where
  "transform Parse c ctx query =
     (let query = normalize_query query in
      case Whitelist (driver c) query of
        Some found \<Rightarrow> ((Query found, Num found, None), c)
      | None \<Rightarrow>
          if (case queryKey ctx of None \<Rightarrow> True | Some escapedQuery \<Rightarrow> normalize_query escapedQuery \<noteq> query)
          then (([], 0, Some (Wrap ErrUnknownQuery query)), c)
          else
            (case lookup (dynamicCache (driver c)) query of
               ((found, True), qc) \<Rightarrow>
                 ((Query found, Num found, None), c\<lparr>driver := (driver c)\<lparr>dynamicCache := qc\<rparr>\<rparr>)
             | ((found, False), qc) \<Rightarrow>
                 (let c = c\<lparr>driver := (driver c)\<lparr>dynamicCache := qc\<rparr>\<rparr> in
                  case Parse query of
                    Inl err \<Rightarrow> (([], 0, Some err), c)
                  | Inr tree \<Rightarrow>
                      (case doTransform c tree of
                         (transformedQ, num, Some err) \<Rightarrow> (([], 0, Some err), c)
                       | (transformedQ, num, None) \<Rightarrow>
                           ((transformedQ, num, None),
                            c\<lparr>driver := (driver c)\<lparr>dynamicCache :=
                                 add (dynamicCache (driver c)) query
                                   \<lparr>Query = transformedQ, Num = num\<rparr>\<rparr>\<rparr>)))))"


section \<open>Definitions for the properties\<close>

text \<open>
  The numbers of all positional parameters of a parse tree, field by field as
  \<open>findMaxParam\<close> visits them.
\<close>

primrec paramRefs :: "node \<Rightarrow> int list"
  and paramRefs_rangeVar :: "rangeVar \<Rightarrow> int list"
  and paramRefs_alias :: "aliasT \<Rightarrow> int list"
  and paramRefs_typeName :: "typeName \<Rightarrow> int list"
  and paramRefs_withClause :: "withClause \<Rightarrow> int list"
  and paramRefs_onConflictClause :: "onConflictClause \<Rightarrow> int list"
  and paramRefs_insertStmt :: "insertStmt \<Rightarrow> int list"
  and paramRefs_selectStmt :: "selectStmt \<Rightarrow> int list"
where
  "paramRefs Nil = []"
| "paramRefs (RawStmt stmt) = concat [paramRefs stmt, []]"
| "paramRefs (InsertStmtN s) = paramRefs_insertStmt s"
| "paramRefs (SelectStmtN s) = paramRefs_selectStmt s"
| "paramRefs (UpdateStmt relation targetList whereClause fromClause returningList withClause) =
     concat [paramRefs_rangeVar relation, concat (map paramRefs targetList),
                paramRefs whereClause, concat (map paramRefs fromClause),
                concat (map paramRefs returningList),
                (case map_option paramRefs_withClause withClause of None \<Rightarrow> [] | Some r \<Rightarrow> r)]"
| "paramRefs (DeleteStmt relation usingClause whereClause unread) =
     concat [paramRefs_rangeVar relation, concat (map paramRefs usingClause),
                paramRefs whereClause, concat (map paramRefs unread)]"
| "paramRefs (RangeSubselect subquery alias) =
     concat [[], paramRefs subquery,
                (case map_option paramRefs_alias alias of None \<Rightarrow> [] | Some r \<Rightarrow> r)]"
| "paramRefs (ParamRef number) = [number]"
| "paramRefs (TypeCast arg typeName) =
     concat [paramRefs arg,
                (case map_option paramRefs_typeName typeName of None \<Rightarrow> [] | Some r \<Rightarrow> r), []]"
| "paramRefs (ResTarget name val indirection) =
     concat [[], concat (map paramRefs indirection), paramRefs val, []]"
| "paramRefs (ColumnRef items) = concat [concat (map paramRefs items), []]"
| "paramRefs (String str) = []"
| "paramRefs (A_Expr kind name lexpr rexpr) =
     concat [[], concat (map paramRefs name), paramRefs lexpr, paramRefs rexpr, []]"
| "paramRefs (FuncCall funcname args aggStar unread) =
     concat [concat (map paramRefs funcname), concat (map paramRefs args),
                concat (map paramRefs unread), []]"
| "paramRefs (BoolExpr boolop args) = concat [[], concat (map paramRefs args), []]"
| "paramRefs (SubLink subLinkType testexpr subselect operName) =
     concat [[], paramRefs testexpr, concat (map paramRefs operName),
                paramRefs subselect, []]"
| "paramRefs (A_Const val) = concat [paramRefs val, []]"
| "paramRefs (RangeVarN rv) = paramRefs_rangeVar rv"
| "paramRefs (CoalesceExpr args) = concat [[], concat (map paramRefs args), []]"
| "paramRefs SetToDefault = []"
| "paramRefs (NullTest arg nulltesttype) = concat [paramRefs arg, []]"
| "paramRefs (CaseExpr arg args defresult) =
     concat [[], paramRefs arg, concat (map paramRefs args), paramRefs defresult, []]"
| "paramRefs (CaseWhen expr result) = concat [paramRefs expr, paramRefs result, []]"
| "paramRefs (JoinExpr jointype larg rarg quals unread) =
     concat [[], paramRefs larg, paramRefs rarg, concat (map paramRefs unread),
                paramRefs quals, []]"
| "paramRefs (RangeFunction functions alias coldeflist) =
     concat [[], concat (map paramRefs functions),
                (case map_option paramRefs_alias alias of None \<Rightarrow> [] | Some r \<Rightarrow> r),
                concat (map paramRefs coldeflist)]"
| "paramRefs (RowExpr args colnames) =
     concat [concat (map paramRefs args), [], concat (map paramRefs colnames), []]"
| "paramRefs (SQLValueFunction op) = []"
| "paramRefs A_Star = []"
| "paramRefs (Integer ival) = []"
| "paramRefs (Float str) = []"
| "paramRefs Null = []"
| "paramRefs (BitString str) = []"
| "paramRefs (SortBy node sortbyDir useOp) =
     concat [paramRefs node, [], concat (map paramRefs useOp), []]"
| "paramRefs (List items) = concat [concat (map paramRefs items)]"
| "paramRefs (CommonTableExpr ctename ctequery unread) =
     concat [[], paramRefs ctequery, concat (map paramRefs unread), []]"
| "paramRefs (IndexElem name unread) = concat [[], concat (map paramRefs unread), []]"
| "paramRefs (OtherNode typ children) = concat [concat (map paramRefs children), []]"
| "paramRefs_rangeVar (RangeVar relname alias) =
     concat [[], (case map_option paramRefs_alias alias of None \<Rightarrow> [] | Some r \<Rightarrow> r), []]"
| "paramRefs_alias (Alias aliasname colnames) = concat [[], concat (map paramRefs colnames)]"
| "paramRefs_typeName (TypeName names arrayBounds typmods) =
     concat [concat (map paramRefs names), [], concat (map paramRefs typmods),
                concat (map paramRefs arrayBounds), []]"
| "paramRefs_withClause (WithClause ctes recursive) = concat [concat (map paramRefs ctes), []]"
| "paramRefs_onConflictClause (OnConflictClause action infer targetList whereClause unread) =
     concat [[],
                (case map_option (map paramRefs) infer of
                   None \<Rightarrow> []
                 | Some rs \<Rightarrow> concat [concat rs, concat (map paramRefs unread), []]),
                concat (map paramRefs targetList), paramRefs whereClause, []]"
| "paramRefs_insertStmt (InsertStmt relation cols selectStmt onConflictClause returningList withClause) =
     concat [paramRefs_rangeVar relation, concat (map paramRefs cols),
                paramRefs selectStmt,
                (case map_option paramRefs_onConflictClause onConflictClause of None \<Rightarrow> [] | Some r \<Rightarrow> r),
                concat (map paramRefs returningList),
                (case map_option paramRefs_withClause withClause of None \<Rightarrow> [] | Some r \<Rightarrow> r), []]"
| "paramRefs_selectStmt (SelectStmt distinctClause targetList fromClause whereClause groupClause
       havingClause valuesLists sortClause limitCount withClause unread) =
     concat [concat (map paramRefs distinctClause), concat (map paramRefs targetList),
                concat (map paramRefs fromClause), paramRefs whereClause,
                concat (map paramRefs groupClause), paramRefs havingClause,
                concat (map concat (map (map paramRefs) valuesLists)),
                concat (map paramRefs sortClause), paramRefs limitCount,
                (case map_option paramRefs_withClause withClause of None \<Rightarrow> [] | Some r \<Rightarrow> r),
                concat (map paramRefs unread), []]"


definition paramRefs_tree :: "node list \<Rightarrow> int list" where
  "paramRefs_tree tree = concat (map paramRefs tree)"

text \<open>
  \<open>isMaxOf m ks\<close>: \<open>m\<close> bounds the numbers \<open>ks\<close> and is one of them or 0.
\<close>

definition isMaxOf :: "int \<Rightarrow> int list \<Rightarrow> bool" where
  "isMaxOf m ks = ((m = 0 \<or> m \<in> set ks) \<and> list_all (\<lambda>k. k \<le> m) ks)"

text \<open>
  The tenant predicates of a WHERE or ON clause, as the specification words them: one
  predicate \<open>[table.]col = $N\<close> for every table of \<open>tables\<close> tagged \<open>needsTenantID\<close>, in the
  order of \<open>tables\<close>, joined with \<open>AND\<close>; qualified when there is more than one table or
  in onConflict mode.
\<close>

definition tenantPredicate :: "transformer \<Rightarrow> bool \<Rightarrow> string \<Rightarrow> string" where
  "tenantPredicate t qualified table =
     (if qualified then table @ ''.'' else []) @ TenantIDCol (driver (Conn t)) @ '' = $'' @ itoa (tenantIDNum t)"

definition tenantPredicates :: "transformer \<Rightarrow> environ \<Rightarrow> bool \<Rightarrow> string list \<Rightarrow> string" where
  "tenantPredicates t env onConflict tables =
     Join (map (tenantPredicate t (length tables > 1 \<or> onConflict))
             (filter (\<lambda>table. envGet env table = needsTenantID) tables)) '' AND ''"

definition markHasTenantID :: "environ \<Rightarrow> string list \<Rightarrow> environ" where
  "markHasTenantID env tables =
     foldl (\<lambda>e table. if envGet env table = needsTenantID then envSet e table hasTenantID else e) env tables"

subsection \<open>Example inputs\<close>

text \<open>
  A connection of a driver with the tenant column \<open>tenant_id\<close>, an empty whitelist and an
  empty cache, and the parse trees that the parser gives for some queries.
\<close>

definition exampleConn :: conn where
  "exampleConn =
     \<lparr>driver = \<lparr>TenantIDCol = ''tenant_id'', Whitelist = Map.empty, dynamicCache = \<lparr>cache = None\<rparr>\<rparr>\<rparr>"

definition columnRef :: "string list \<Rightarrow> node" where
  "columnRef names = ColumnRef (map String names)"

definition tableRef :: "string \<Rightarrow> node" where
  "tableRef name = RangeVarN (RangeVar name None)"

definition target :: "node \<Rightarrow> node" where
  "target val = ResTarget None val []"

definition opExpr :: "node \<Rightarrow> string \<Rightarrow> node \<Rightarrow> node" where
  "opExpr l op r = A_Expr AEXPR_OP [String op] l r"

definition selectStmt :: "node list \<Rightarrow> node list \<Rightarrow> node \<Rightarrow> withClause option \<Rightarrow> selectStmt" where
  "selectStmt targets from whereClause withClause =
     SelectStmt [] targets from whereClause [] Nil [] [] Nil withClause []"

text \<open>\<open>DELETE FROM cotton USING lamp WHERE lamp.x = cotton.y\<close>\<close>

definition tree_delete_using :: "node list" where
  "tree_delete_using =
     [RawStmt (DeleteStmt (RangeVar ''cotton'' None) [tableRef ''lamp'']
        (opExpr (columnRef [''lamp'', ''x'']) ''='' (columnRef [''cotton'', ''y''])) [])]"

text \<open>\<open>WITH c AS (SELECT a FROM t) SELECT a FROM c LEFT JOIN u ON c.a = u.a\<close>\<close>

definition tree_cte_left_join :: "node list" where
  "tree_cte_left_join =
     [RawStmt (SelectStmtN (selectStmt [target (columnRef [''a''])]
        [JoinExpr JOIN_LEFT (tableRef ''c'') (tableRef ''u'')
           (opExpr (columnRef [''c'', ''a'']) ''='' (columnRef [''u'', ''a''])) []]
        Nil
        (Some (WithClause
           [CommonTableExpr ''c''
              (SelectStmtN (selectStmt [target (columnRef [''a''])] [tableRef ''t''] Nil None)) []]
           False))))]"

text \<open>The FROM list of \<open>SELECT 1 FROM a LEFT JOIN b ON a.k = b.k, a x\<close>\<close>

definition from_left_join_and_alias :: "node list" where
  "from_left_join_and_alias =
     [JoinExpr JOIN_LEFT (tableRef ''a'') (tableRef ''b'')
        (opExpr (columnRef [''a'', ''k'']) ''='' (columnRef [''b'', ''k''])) [],
      RangeVarN (RangeVar ''a'' (Some (Alias ''x'' [])))]"

text \<open>\<open>UPDATE foo SET a = $1 RETURNING a\<close> and \<open>UPDATE foo SET a = $1 WHERE b = $2 RETURNING a\<close>\<close>

definition tree_update_returning :: "node list" where
  "tree_update_returning =
     [RawStmt (UpdateStmt (RangeVar ''foo'' None) [ResTarget (Some ''a'') (ParamRef 1) []] Nil []
        [target (columnRef [''a''])] None)]"

definition tree_update_where_returning :: "node list" where
  "tree_update_where_returning =
     [RawStmt (UpdateStmt (RangeVar ''foo'' None) [ResTarget (Some ''a'') (ParamRef 1) []]
        (opExpr (columnRef [''b'']) ''='' (ParamRef 2)) []
        [target (columnRef [''a''])] None)]"

text \<open>\<open>SELECT B'101' FROM t\<close>: the constant is a bit string.\<close>

definition tree_select_bitstring :: "node list" where
  "tree_select_bitstring =
     [RawStmt (SelectStmtN (selectStmt [target (A_Const (BitString ''b101''))] [tableRef ''t''] Nil None))]"

text \<open>\<open>SELECT CURRENT_TIMESTAMP\<close> and \<open>SELECT $1::bigint\<close>\<close>

definition tree_select_current_timestamp :: "node list" where
  "tree_select_current_timestamp =
     [RawStmt (SelectStmtN (selectStmt [target (SQLValueFunction SVFOP_CURRENT_TIMESTAMP)] [] Nil None))]"

definition tree_select_bigint :: "node list" where
  "tree_select_bigint =
     [RawStmt (SelectStmtN (selectStmt
        [target (TypeCast (ParamRef 1) (Some (TypeName [String ''pg_catalog'', String ''int8''] [] [])))]
        [] Nil None))]"

text \<open>\<open>SELECT DISTINCT a FROM t\<close> and \<open>SELECT foo FROM bar\<close>\<close>

definition tree_select_distinct :: "node list" where
  "tree_select_distinct =
     [RawStmt (SelectStmtN (SelectStmt [Nil] [target (columnRef [''a''])] [tableRef ''t''] Nil [] Nil []
        [] Nil None []))]"

definition tree_select_foo :: "node list" where
  "tree_select_foo =
     [RawStmt (SelectStmtN (selectStmt [target (columnRef [''foo''])] [tableRef ''bar''] Nil None))]"

text \<open>\<open>SELECT a FROM foo WHERE b = $1\<close>\<close>

definition tree_select_param :: "node list" where
  "tree_select_param =
     [RawStmt (SelectStmtN (selectStmt [target (columnRef [''a''])] [tableRef ''foo'']
        (opExpr (columnRef [''b'']) ''='' (ParamRef 1)) None))]"

section \<open>Evaluation\<close>

lemmas eval_simps =
  doTransform_def transformTree_def transformStmt.simps transformUpdate_def transformDelete_def
  transformInsert.simps transformSelect.simps transformWhere.simps transformWhereHelper.simps
  handleCTE.simps transformSelectCol.simps transformAtom.simps transformNode.simps
  transformNodeHelper.simps transformNodeSafe.simps transformBoolExpr.simps
  transformBoolSubexpr.simps transformSubLink.simps
  transformInsert_body_def transformSelect_body_def transformSelect_sortBy_def
  transformWhereHelper_body_def handleCTE_item_def handleCTE_body_def transformSelectCol_body_def
  transformNodeHelper_body_def transformBoolExpr_body_def transformBoolSubexpr_body_def
  transformSubLink_body_def
  specialCaseBoolLiteral_def transformIndexElem_def transformIdent_def transformConst_def
  transformTypeName_def maybeSetIsLeftJoinTable_def extractTables_def transformSelect_star_def
  commaSeparated_def wrapErr_def Fprint_def addTenantID_def itoa_def natToString.simps
  safestr_def QuoteIdentifier_def escape_def ToUpper_def envGet_def envSet_def newEnv_def
  findMaxParam_tree_def maxResult_def int64_def
  exampleConn_def columnRef_def tableRef_def target_def opExpr_def selectStmt_def

lemmas normalize_simps =
  normalize_query_def TrimSpace_def trimPrefixes.simps spaceRunes_def


text \<open>
  A connection whose whitelist holds \<open>SELECT 1\<close>, and one whose cache holds the rewrite of
  \<open>SELECT foo FROM bar\<close>.
\<close>

definition whitelistConn :: conn where
  "whitelistConn =
     \<lparr>driver = \<lparr>TenantIDCol = ''tenant_id'',
                 Whitelist = [''SELECT 1'' \<mapsto> \<lparr>Query = ''SELECT 1'', Num = 0\<rparr>],
                 dynamicCache = \<lparr>cache = None\<rparr>\<rparr>\<rparr>"

definition cachedConn :: conn where
  "cachedConn =
     \<lparr>driver = \<lparr>TenantIDCol = ''tenant_id'', Whitelist = Map.empty,
                 dynamicCache = \<lparr>cache = Some [(''SELECT foo FROM bar'',
                    \<lparr>Query = ''SELECT foo FROM bar WHERE tenant_id = $1'', Num = 1\<rparr>)]\<rparr>\<rparr>\<rparr>"

definition failingParse :: "string \<Rightarrow> error + node list" where
  "failingParse q = Inl (ParserError ''syntax error'')"


section \<open>Properties\<close>

text \<open>
  C3 (a CTE name never receives a tenant predicate; at most one name per scope is tagged
  \<open>isLeftJoinTable\<close>): the code does not have this property. \<open>maybeSetIsLeftJoinTable\<close>
  only looks for an existing \<open>isLeftJoinTable\<close> tag and then overwrites whatever status the
  name has, so the CTE name \<open>c\<close> of
  \<open>WITH c AS (SELECT a FROM t) SELECT a FROM c LEFT JOIN u ON c.a = u.a\<close>
  loses its \<open>isCTE\<close> tag and receives \<open>c.tenant_id = $1\<close> in the WHERE clause. And a
  later alias of a tagged table copies the tag: after the FROM list
  \<open>a LEFT JOIN b ON a.k = b.k, a x\<close> both \<open>a\<close> and \<open>x\<close> are tagged \<open>isLeftJoinTable\<close>.
\<close>

theorem C3_cte_name_receives_predicate:
  "doTransform exampleConn tree_cte_left_join =
     (''WITH c AS (SELECT a FROM t WHERE tenant_id = $1) SELECT a FROM c LEFT JOIN u ON c.a = u.a AND u.tenant_id = $1 WHERE c.tenant_id = $1'',
      1, None)
   \<and> maybeSetIsLeftJoinTable [(''c'', isCTE)] ''c'' = [(''c'', isLeftJoinTable)]
   \<and> fst (snd (commaSeparated from_left_join_and_alias newEnv
                   (transformNode \<lparr>Conn = exampleConn, tenantIDNum = 1\<rparr>)
                   \<lparr>buf = [], isTransformed = False\<rparr>)) =
       [(''a'', isLeftJoinTable), (''b'', hasTenantID), (''x'', isLeftJoinTable)]"
  by (simp add: eval_simps tree_cte_left_join_def from_left_join_and_alias_def)

text \<open>
  C4 (an UPDATE without WHERE gets a fabricated WHERE, and RETURNING is copied through also
  in that case): the code does not have the second half. For
  \<open>UPDATE foo SET a = $1 RETURNING a\<close> the fabricated WHERE is written and \<open>transformUpdate\<close>
  returns at once, before the RETURNING list is looked at; with a WHERE clause in the input
  the same RETURNING list is written. In general, the RETURNING list of an UPDATE without
  WHERE has no effect on the result.
\<close>

theorem C4_update_without_where_drops_returning:
  "doTransform exampleConn tree_update_returning =
     (''UPDATE foo SET a = $1 WHERE tenant_id = $2'', 2, None)
   \<and> doTransform exampleConn tree_update_where_returning =
     (''UPDATE foo SET a = $1 WHERE b = $2 AND tenant_id = $3 RETURNING a'', 3, None)
   \<and> transformUpdate t relation targetList Nil fromClause returningList withClause env w =
       transformUpdate t relation targetList Nil fromClause [] withClause env w"
proof -
  have "doTransform exampleConn tree_update_returning =
     (''UPDATE foo SET a = $1 WHERE tenant_id = $2'', 2, None)"
    by (simp add: eval_simps tree_update_returning_def)
  moreover have "doTransform exampleConn tree_update_where_returning =
     (''UPDATE foo SET a = $1 WHERE b = $2 AND tenant_id = $3 RETURNING a'', 3, None)"
    by (simp add: eval_simps tree_update_where_returning_def)
  moreover have "transformUpdate t relation targetList Nil fromClause returningList withClause env w =
       transformUpdate t relation targetList Nil fromClause [] withClause env w"
    by (simp add: transformUpdate_def split: prod.splits option.splits)
  ultimately show ?thesis
    by (intro conjI)
qed

text \<open>
  C7 (every unrecognised construct, constant kinds included, fails with an error): the code
  does not have this property for constants. The type switch of \<open>transformConst\<close> has no
  default case, so a constant that is not an integer, a float, a string or NULL writes
  nothing and reports success: \<open>SELECT B'101' FROM t\<close> is rewritten to a SELECT with an
  empty target list. (A node of a kind that \<open>transformNodeHelper\<close> does not know gives an
  error.)
\<close>

theorem C7_bitstring_constant_silently_dropped:
  "transformConst (BitString s) w = (None, w)
   \<and> doTransform exampleConn tree_select_bitstring =
       (''SELECT  FROM t WHERE tenant_id = $1'', 1, None)
   \<and> transformNodeHelper t (OtherNode typ children) env w =
       ((False, Some (Errorf ''node type %T not handled'')), env, w)"
proof -
  have "transformConst (BitString s) w = (None, w)"
    by (simp add: transformConst_def)
  moreover have "doTransform exampleConn tree_select_bitstring =
       (''SELECT  FROM t WHERE tenant_id = $1'', 1, None)"
    by (simp add: eval_simps tree_select_bitstring_def)
  moreover have "transformNodeHelper t (OtherNode typ children) env w =
       ((False, Some (Errorf ''node type %T not handled'')), env, w)"
    by (simp add: transformNodeHelper.simps transformNodeHelper_body_def)
  ultimately show ?thesis
    by (intro conjI)
qed

text \<open>
  C10 (a rewrite that succeeds with index 0 returns the re-emission of the parse tree, not
  the input text): with the parse trees of \<open>SELECT CURRENT_TIMESTAMP\<close> and
  \<open>SELECT $1::bigint\<close> (whose type name is \<open>pg_catalog.int8\<close>), the rewrite succeeds with
  index 0 and returns \<open>SELECT NOW()\<close> and \<open>SELECT $1::BIGINT\<close>, which differ from the
  normalized inputs; the same holds for the whole driver-facing operation, whatever parser
  produced these trees.
\<close>

theorem C10_untransformed_query_is_reemitted:
  "doTransform exampleConn tree_select_current_timestamp = (''SELECT NOW()'', 0, None)
   \<and> doTransform exampleConn tree_select_bigint = (''SELECT $1::BIGINT'', 0, None)
   \<and> normalize_query ''SELECT CURRENT_TIMESTAMP'' = ''SELECT CURRENT_TIMESTAMP''
   \<and> normalize_query ''SELECT $1::bigint'' = ''SELECT $1::bigint''
   \<and> fst (transform (\<lambda>q. Inr tree_select_current_timestamp) exampleConn
              \<lparr>queryKey = Some ''SELECT CURRENT_TIMESTAMP''\<rparr> ''SELECT CURRENT_TIMESTAMP'')
       = (''SELECT NOW()'', 0, None)
   \<and> fst (transform (\<lambda>q. Inr tree_select_bigint) exampleConn
              \<lparr>queryKey = Some ''SELECT $1::bigint''\<rparr> ''SELECT $1::bigint'')
       = (''SELECT $1::BIGINT'', 0, None)"
  by (simp add: eval_simps normalize_simps transform_def lookup_def add_def
        tree_select_current_timestamp_def tree_select_bigint_def)

lemma lookup_miss:
  "lookup qc q = ((found, False), qc') \<Longrightarrow> qc' = qc"
  by (auto simp: lookup_def split: option.splits prod.splits)

lemma conn_driver_cache_same:
  "c\<lparr>driver := (driver c)\<lparr>dynamicCache := dynamicCache (driver c)\<rparr>\<rparr> = c"
  by simp

lemma doTransform_error:
  "doTransform c tree = (q', n, Some err) \<Longrightarrow> q' = [] \<and> n = 0"
  by (auto simp: doTransform_def Let_def split: prod.splits option.splits)

text \<open>
  C5 (the order of the driver-facing rewrite operation): with \<open>q\<close> the normalized query,
  a whitelisted \<open>q\<close> is answered from the whitelist, whatever the parser, the context and
  the cache are; otherwise, without a context query that normalizes to \<open>q\<close>, the operation
  fails with \<open>ErrUnknownQuery\<close> wrapping \<open>q\<close>, whatever the cache holds; otherwise a cached
  rewrite is returned; otherwise the query is parsed and rewritten, and a successful
  rewrite is added to the cache and returned.
\<close>

theorem C5_transform_order:
  "(\<forall>found. Whitelist (driver c) (normalize_query raw) = Some found \<longrightarrow>
      transform Parse c ctx raw = ((Query found, Num found, None), c))
   \<and> (Whitelist (driver c) (normalize_query raw) = None \<longrightarrow>
        ((\<forall>e. queryKey ctx = Some e \<longrightarrow> normalize_query e \<noteq> normalize_query raw) \<longrightarrow>
           transform Parse c ctx raw =
             (([], 0, Some (Wrap ErrUnknownQuery (normalize_query raw))), c))
      \<and> ((\<exists>e. queryKey ctx = Some e \<and> normalize_query e = normalize_query raw) \<longrightarrow>
           (\<forall>found qc. lookup (dynamicCache (driver c)) (normalize_query raw) = ((found, True), qc) \<longrightarrow>
              transform Parse c ctx raw =
                ((Query found, Num found, None), c\<lparr>driver := (driver c)\<lparr>dynamicCache := qc\<rparr>\<rparr>))
         \<and> (\<forall>found qc. lookup (dynamicCache (driver c)) (normalize_query raw) = ((found, False), qc) \<longrightarrow>
              (\<forall>err. Parse (normalize_query raw) = Inl err \<longrightarrow>
                 transform Parse c ctx raw = (([], 0, Some err), c))
            \<and> (\<forall>tree tq n. Parse (normalize_query raw) = Inr tree \<and> doTransform c tree = (tq, n, None) \<longrightarrow>
                 transform Parse c ctx raw =
                   ((tq, n, None),
                    c\<lparr>driver := (driver c)\<lparr>dynamicCache :=
                         add (dynamicCache (driver c)) (normalize_query raw) \<lparr>Query = tq, Num = n\<rparr>\<rparr>\<rparr>)))))"
proof (intro conjI allI impI)
  fix found
  assume "Whitelist (driver c) (normalize_query raw) = Some found"
  then show "transform Parse c ctx raw = ((Query found, Num found, None), c)"
    by (simp add: transform_def Let_def)
next
  assume "Whitelist (driver c) (normalize_query raw) = None"
    and "\<forall>e. queryKey ctx = Some e \<longrightarrow> normalize_query e \<noteq> normalize_query raw"
  then show "transform Parse c ctx raw = (([], 0, Some (Wrap ErrUnknownQuery (normalize_query raw))), c)"
    by (auto simp: transform_def Let_def split: option.splits)
next
  fix found qc
  assume "Whitelist (driver c) (normalize_query raw) = None"
    and "\<exists>e. queryKey ctx = Some e \<and> normalize_query e = normalize_query raw"
    and "lookup (dynamicCache (driver c)) (normalize_query raw) = ((found, True), qc)"
  then show "transform Parse c ctx raw =
      ((Query found, Num found, None), c\<lparr>driver := (driver c)\<lparr>dynamicCache := qc\<rparr>\<rparr>)"
    by (auto simp: transform_def Let_def)
next
  fix found qc err
  assume w: "Whitelist (driver c) (normalize_query raw) = None"
    and e: "\<exists>e. queryKey ctx = Some e \<and> normalize_query e = normalize_query raw"
    and l: "lookup (dynamicCache (driver c)) (normalize_query raw) = ((found, False), qc)"
    and p: "Parse (normalize_query raw) = Inl err"
  from l have "qc = dynamicCache (driver c)"
    by (rule lookup_miss)
  with w e l p show "transform Parse c ctx raw = (([], 0, Some err), c)"
    by (auto simp: transform_def Let_def)
next
  fix found qc tree tq n
  assume w: "Whitelist (driver c) (normalize_query raw) = None"
    and e: "\<exists>e. queryKey ctx = Some e \<and> normalize_query e = normalize_query raw"
    and l: "lookup (dynamicCache (driver c)) (normalize_query raw) = ((found, False), qc)"
    and p: "Parse (normalize_query raw) = Inr tree \<and> doTransform c tree = (tq, n, None)"
  from l have "qc = dynamicCache (driver c)"
    by (rule lookup_miss)
  with w e l p show "transform Parse c ctx raw =
      ((tq, n, None),
       c\<lparr>driver := (driver c)\<lparr>dynamicCache :=
            add (dynamicCache (driver c)) (normalize_query raw) \<lparr>Query = tq, Num = n\<rparr>\<rparr>\<rparr>)"
    by (auto simp: transform_def Let_def)
qed

theorem C5_transform_order_witness:
  "transform failingParse whitelistConn \<lparr>queryKey = None\<rparr> ''  SELECT 1 '' =
     ((''SELECT 1'', 0, None), whitelistConn)
   \<and> transform failingParse cachedConn \<lparr>queryKey = None\<rparr> ''SELECT foo FROM bar'' =
     (([], 0, Some (Wrap ErrUnknownQuery ''SELECT foo FROM bar'')), cachedConn)
   \<and> transform failingParse cachedConn \<lparr>queryKey = Some ''SELECT foo FROM bar''\<rparr> ''SELECT foo FROM bar'' =
     ((''SELECT foo FROM bar WHERE tenant_id = $1'', 1, None), cachedConn)
   \<and> transform failingParse exampleConn \<lparr>queryKey = Some ''SELEC''\<rparr> ''SELEC'' =
     (([], 0, Some (ParserError ''syntax error'')), exampleConn)
   \<and> transform (\<lambda>q. Inr tree_select_foo) exampleConn \<lparr>queryKey = Some ''SELECT foo FROM bar''\<rparr>
        ''SELECT foo FROM bar'' =
     ((''SELECT foo FROM bar WHERE tenant_id = $1'', 1, None),
      exampleConn\<lparr>driver := (driver exampleConn)\<lparr>dynamicCache := \<lparr>cache = Some [(''SELECT foo FROM bar'',
         \<lparr>Query = ''SELECT foo FROM bar WHERE tenant_id = $1'', Num = 1\<rparr>)]\<rparr>\<rparr>\<rparr>)"
  using C5_transform_order [of whitelistConn "''  SELECT 1 ''" failingParse "\<lparr>queryKey = None\<rparr>"]
    C5_transform_order [of cachedConn "''SELECT foo FROM bar''" failingParse "\<lparr>queryKey = None\<rparr>"]
    C5_transform_order [of cachedConn "''SELECT foo FROM bar''" failingParse "\<lparr>queryKey = Some ''SELECT foo FROM bar''\<rparr>"]
    C5_transform_order [of exampleConn "''SELEC''" failingParse "\<lparr>queryKey = Some ''SELEC''\<rparr>"]
    C5_transform_order [of exampleConn "''SELECT foo FROM bar''" "\<lambda>q. Inr tree_select_foo" "\<lparr>queryKey = Some ''SELECT foo FROM bar''\<rparr>"]
  by (simp add: normalize_simps whitelistConn_def cachedConn_def failingParse_def lookup_def lru_Get_def
        add_def lru_Add_def maxCachedQueries_def eval_simps tree_select_foo_def)

text \<open>
  C6 (the rewrite is all-or-nothing): whenever the operation returns an error, the query
  returned is empty, the index is 0 and the driver, its cache included, is as it was;
  the same holds for the rewrite of a parse tree; a parser error is returned as such; and
  when the rewriter fails, having written \<open>res\<close> so far, the operation returns the error and
  not \<open>res\<close>.
\<close>

theorem C6_all_or_nothing:
  "(\<forall>q' n err c'. transform Parse c ctx raw = ((q', n, Some err), c') \<longrightarrow> q' = [] \<and> n = 0 \<and> c' = c)
   \<and> (\<forall>q' n err. doTransform c tree = (q', n, Some err) \<longrightarrow> q' = [] \<and> n = 0)
   \<and> (\<forall>res err w. transformTree \<lparr>Conn = c, tenantIDNum = int64 (1 + findMaxParam_tree tree)\<rparr> tree
                      \<lparr>buf = [], isTransformed = False\<rparr> = ((res, Some err), w) \<longrightarrow>
         doTransform c tree = ([], 0, Some err)
         \<and> (Whitelist (driver c) (normalize_query raw) = None
              \<and> queryKey ctx = Some raw
              \<and> snd (fst (lookup (dynamicCache (driver c)) (normalize_query raw))) = False
              \<and> Parse (normalize_query raw) = Inr tree \<longrightarrow>
            transform Parse c ctx raw = (([], 0, Some err), c)))"
proof (intro conjI allI impI)
  fix q' n err c'
  assume t: "transform Parse c ctx raw = ((q', n, Some err), c')"
  have miss: "\<And>found qc. lookup (dynamicCache (driver c)) (normalize_query raw) = ((found, False), qc)
      \<Longrightarrow> c\<lparr>driver := (driver c)\<lparr>dynamicCache := qc\<rparr>\<rparr> = c"
    by (drule lookup_miss) simp
  from t show "q' = []" and "n = 0" and "c' = c"
    by (auto simp: transform_def Let_def miss split: option.splits if_splits prod.splits bool.splits sum.splits)
next
  fix q' n err
  assume "doTransform c tree = (q', n, Some err)"
  then show "q' = []" and "n = 0"
    by (auto dest: doTransform_error)
next
  fix res err w
  assume "transformTree \<lparr>Conn = c, tenantIDNum = int64 (1 + findMaxParam_tree tree)\<rparr> tree
            \<lparr>buf = [], isTransformed = False\<rparr> = ((res, Some err), w)"
  then show "doTransform c tree = ([], 0, Some err)"
    by (simp add: doTransform_def Let_def)
next
  fix res err w
  assume tt: "transformTree \<lparr>Conn = c, tenantIDNum = int64 (1 + findMaxParam_tree tree)\<rparr> tree
            \<lparr>buf = [], isTransformed = False\<rparr> = ((res, Some err), w)"
    and h: "Whitelist (driver c) (normalize_query raw) = None
              \<and> queryKey ctx = Some raw
              \<and> snd (fst (lookup (dynamicCache (driver c)) (normalize_query raw))) = False
              \<and> Parse (normalize_query raw) = Inr tree"
  from tt have d: "doTransform c tree = ([], 0, Some err)"
    by (simp add: doTransform_def Let_def)
  obtain found b qc where l: "lookup (dynamicCache (driver c)) (normalize_query raw) = ((found, b), qc)"
    by (metis surj_pair)
  with h have b: "b = False"
    by simp
  with l have "qc = dynamicCache (driver c)"
    by (auto dest: lookup_miss)
  with h d l b show "transform Parse c ctx raw = (([], 0, Some err), c)"
    by (simp add: transform_def Let_def)
qed

theorem C6_all_or_nothing_witness:
  "transformTree \<lparr>Conn = exampleConn, tenantIDNum = 1\<rparr> tree_select_distinct \<lparr>buf = [], isTransformed = False\<rparr> =
     ((''SELECT '', Some (Errorf ''SELECT DISTINCT not implemented'')), \<lparr>buf = ''SELECT '', isTransformed = False\<rparr>)
   \<and> doTransform exampleConn tree_select_distinct = ([], 0, Some (Errorf ''SELECT DISTINCT not implemented''))
   \<and> transform (\<lambda>q. Inr tree_select_distinct) exampleConn \<lparr>queryKey = Some ''SELECT DISTINCT a FROM t''\<rparr>
        ''SELECT DISTINCT a FROM t'' =
       (([], 0, Some (Errorf ''SELECT DISTINCT not implemented'')), exampleConn)"
proof -
  have tt: "transformTree \<lparr>Conn = exampleConn, tenantIDNum = int64 (1 + findMaxParam_tree tree_select_distinct)\<rparr>
      tree_select_distinct \<lparr>buf = [], isTransformed = False\<rparr> =
     ((''SELECT '', Some (Errorf ''SELECT DISTINCT not implemented'')), \<lparr>buf = ''SELECT '', isTransformed = False\<rparr>)"
    by (simp add: eval_simps tree_select_distinct_def)
  have one: "int64 (1 + findMaxParam_tree tree_select_distinct) = 1"
    by (simp add: eval_simps tree_select_distinct_def)
  have hyps: "Whitelist (driver exampleConn) (normalize_query ''SELECT DISTINCT a FROM t'') = None
      \<and> snd (fst (lookup (dynamicCache (driver exampleConn)) (normalize_query ''SELECT DISTINCT a FROM t''))) = False"
    by (simp add: exampleConn_def lookup_def)
  from C6_all_or_nothing [of "\<lambda>q. Inr tree_select_distinct" exampleConn
      "\<lparr>queryKey = Some ''SELECT DISTINCT a FROM t''\<rparr>" "''SELECT DISTINCT a FROM t''" tree_select_distinct]
    tt hyps
  show ?thesis
    by (simp add: one)
qed

subsection \<open>The Normalizer\<close>

lemma trimPrefixes_id:
  "\<forall>tok\<in>set toks. tok \<noteq> [] \<longrightarrow> \<not> prefix tok s \<Longrightarrow> trimPrefixes toks s = s"
proof -
  assume "\<forall>tok\<in>set toks. tok \<noteq> [] \<longrightarrow> \<not> prefix tok s"
  then have "filter (\<lambda>tok. tok \<noteq> [] \<and> prefix tok s) toks = []"
    by (auto simp: filter_empty_conv)
  then show ?thesis
    by (subst trimPrefixes.simps) simp
qed

lemma trimPrefixes_no_prefix:
  "tok \<in> set toks \<Longrightarrow> tok \<noteq> [] \<Longrightarrow> \<not> prefix tok (trimPrefixes toks s)"
proof (induction toks s rule: trimPrefixes.induct)
  case (1 toks s)
  show ?case
  proof (cases "filter (\<lambda>tok. tok \<noteq> [] \<and> prefix tok s) toks")
    case Nil
    then have "trimPrefixes toks s = s"
      by (subst trimPrefixes.simps) simp
    moreover from Nil 1(2,3) have "\<not> prefix tok s"
      by (auto simp: filter_empty_conv)
    ultimately show ?thesis
      by simp
  next
    case (Cons t ts)
    then have "trimPrefixes toks s = trimPrefixes toks (drop (length t) s)"
      by (subst trimPrefixes.simps) simp
    with 1(1) [OF Cons] 1(2,3) show ?thesis
      by simp
  qed
qed

lemma trimPrefixes_suffix:
  "suffix (trimPrefixes toks s) s"
proof (induction toks s rule: trimPrefixes.induct)
  case (1 toks s)
  show ?case
  proof (cases "filter (\<lambda>tok. tok \<noteq> [] \<and> prefix tok s) toks")
    case Nil
    then show ?thesis
      by (subst trimPrefixes.simps) simp
  next
    case (Cons t ts)
    then have "trimPrefixes toks s = trimPrefixes toks (drop (length t) s)"
      by (subst trimPrefixes.simps) simp
    with 1 [OF Cons] show ?thesis
      by (metis suffix_drop suffix_order.trans)
  qed
qed

lemma spaceRunes_nonempty:
  "tok \<in> set spaceRunes \<Longrightarrow> tok \<noteq> []"
  by (auto simp: spaceRunes_def)

lemma spaceRunes_space_first:
  "tok \<in> set spaceRunes \<Longrightarrow> CHR 0x20 \<notin> set (tl tok)"
  by (auto simp: spaceRunes_def)

lemma spaceRunes_space_last:
  "tok \<in> set spaceRunes \<Longrightarrow> CHR 0x20 \<notin> set (butlast tok)"
  by (auto simp: spaceRunes_def)

lemma TrimSpace_no_prefix:
  assumes "tok \<in> set spaceRunes"
  shows "\<not> prefix tok (TrimSpace s)"
proof
  assume p: "prefix tok (TrimSpace s)"
  have "suffix (trimPrefixes (map rev spaceRunes) (rev (trimPrefixes spaceRunes s))) (rev (trimPrefixes spaceRunes s))"
    by (rule trimPrefixes_suffix)
  then have "prefix (TrimSpace s) (trimPrefixes spaceRunes s)"
    by (simp add: TrimSpace_def suffix_to_prefix)
  with p have "prefix tok (trimPrefixes spaceRunes s)"
    by (rule prefix_order.trans)
  with trimPrefixes_no_prefix [OF assms spaceRunes_nonempty [OF assms]] show False
    by simp
qed

lemma TrimSpace_no_suffix:
  assumes "tok \<in> set spaceRunes"
  shows "\<not> suffix tok (TrimSpace s)"
proof
  assume "suffix tok (TrimSpace s)"
  then have "prefix (rev tok) (trimPrefixes (map rev spaceRunes) (rev (trimPrefixes spaceRunes s)))"
    by (simp add: TrimSpace_def suffix_to_prefix)
  moreover from assms have "rev tok \<in> set (map rev spaceRunes)" and "rev tok \<noteq> []"
    by (auto dest: spaceRunes_nonempty)
  ultimately show False
    using trimPrefixes_no_prefix by blast
qed

lemma TrimSpace_id:
  assumes "\<forall>tok\<in>set spaceRunes. \<not> prefix tok s" and "\<forall>tok\<in>set spaceRunes. \<not> suffix tok s"
  shows "TrimSpace s = s"
proof -
  from assms(1) have "trimPrefixes spaceRunes s = s"
    by (intro trimPrefixes_id) simp
  moreover from assms(2) have "trimPrefixes (map rev spaceRunes) (rev s) = rev s"
    by (intro trimPrefixes_id) (auto simp: suffix_to_prefix)
  ultimately show ?thesis
    by (simp add: TrimSpace_def)
qed

lemma TrimSpace_subset:
  "set (TrimSpace s) \<subseteq> set s"
proof -
  have "set (trimPrefixes (map rev spaceRunes) (rev (trimPrefixes spaceRunes s)))
      \<subseteq> set (rev (trimPrefixes spaceRunes s))"
    by (rule set_mono_suffix) (rule trimPrefixes_suffix)
  then have "set (TrimSpace s) \<subseteq> set (trimPrefixes spaceRunes s)"
    by (simp add: TrimSpace_def)
  also have "\<dots> \<subseteq> set s"
    by (rule set_mono_suffix) (rule trimPrefixes_suffix)
  finally show ?thesis .
qed

lemma Split_nl_nonempty:
  "Split_nl s \<noteq> []"
  by (induction s) (auto split: list.splits)

lemma Split_nl_no_newline:
  "l \<in> set (Split_nl s) \<Longrightarrow> CHR 0x0A \<notin> set l"
  by (induction s arbitrary: l) (auto split: if_splits list.splits)

lemma Split_nl_single:
  "CHR 0x0A \<notin> set s \<Longrightarrow> Split_nl s = [s]"
  by (induction s) auto

lemma Join_no_newline:
  "\<forall>l\<in>set ls. CHR 0x0A \<notin> set l \<Longrightarrow> CHR 0x0A \<notin> set (Join ls '' '')"
  by (induction ls "'' ''" rule: Join.induct) auto

lemma Join_Cons:
  "ls \<noteq> [] \<Longrightarrow> Join (l # ls) sep = l @ sep @ Join ls sep"
  by (cases ls) auto

lemma Join_snoc:
  "ls \<noteq> [] \<Longrightarrow> Join (ls @ [l]) sep = Join ls sep @ sep @ l"
  by (induction ls sep rule: Join.induct) auto

lemma prefix_append_space:
  assumes "prefix tok (l @ CHR 0x20 # r)" and "l \<noteq> []" and "CHR 0x20 \<notin> set (tl tok)"
  shows "prefix tok l"
proof (rule ccontr)
  assume "\<not> prefix tok l"
  with assms(1) obtain u where "tok = l @ u" and "u \<noteq> []" and "prefix u (CHR 0x20 # r)"
    by (auto simp: prefix_append)
  then obtain u' where "tok = l @ CHR 0x20 # u'"
    by (cases u) auto
  with assms(2) have "CHR 0x20 \<in> set (tl tok)"
    by (cases l) auto
  with assms(3) show False
    by simp
qed

lemma suffix_append_space:
  assumes "suffix tok (r @ CHR 0x20 # l)" and "l \<noteq> []" and "CHR 0x20 \<notin> set (butlast tok)"
  shows "suffix tok l"
proof -
  from assms(1) have "prefix (rev tok) (rev l @ CHR 0x20 # rev r)"
    by (simp add: suffix_to_prefix)
  moreover from assms(2) have "rev l \<noteq> []"
    by simp
  moreover from assms(3) have "CHR 0x20 \<notin> set (tl (rev tok))"
    by (cases tok rule: rev_cases) auto
  ultimately have "prefix (rev tok) (rev l)"
    by (rule prefix_append_space)
  then show ?thesis
    by (simp add: suffix_to_prefix)
qed

lemma Join_no_prefix:
  assumes "ls \<noteq> []" and "hd ls \<noteq> []" and "\<forall>tok\<in>set spaceRunes. \<not> prefix tok (hd ls)"
    and "tok \<in> set spaceRunes"
  shows "\<not> prefix tok (Join ls '' '')"
proof (cases ls)
  case Nil
  with assms(1) show ?thesis
    by simp
next
  case (Cons l rest)
  show ?thesis
  proof (cases rest)
    case Nil
    with Cons assms(3,4) show ?thesis
      by simp
  next
    case (Cons a list)
    with \<open>ls = l # rest\<close> have "Join ls '' '' = l @ CHR 0x20 # Join rest '' ''"
      by simp
    moreover from \<open>ls = l # rest\<close> assms(2,3,4) have "l \<noteq> []" and "\<not> prefix tok l"
      by auto
    ultimately show ?thesis
      using prefix_append_space [OF _ _ spaceRunes_space_first [OF assms(4)]] by metis
  qed
qed

lemma Join_no_suffix:
  assumes "ls \<noteq> []" and "last ls \<noteq> []" and "\<forall>tok\<in>set spaceRunes. \<not> suffix tok (last ls)"
    and "tok \<in> set spaceRunes"
  shows "\<not> suffix tok (Join ls '' '')"
proof (cases ls rule: rev_cases)
  case Nil
  with assms(1) show ?thesis
    by simp
next
  case (snoc rest l)
  show ?thesis
  proof (cases "rest = []")
    case True
    with snoc assms(3,4) show ?thesis
      by simp
  next
    case False
    with snoc have "Join ls '' '' = Join rest '' '' @ CHR 0x20 # l"
      by (simp add: Join_snoc)
    moreover from snoc assms(2,3,4) have "l \<noteq> []" and "\<not> suffix tok l"
      by auto
    ultimately show ?thesis
      using suffix_append_space [OF _ _ spaceRunes_space_last [OF assms(4)]] by metis
  qed
qed

lemma dropWhile_rev_dropWhile_hd_last:
  assumes "ls = rev (dropWhile P (rev (dropWhile P xs)))" and "ls \<noteq> []"
  shows "\<not> P (hd ls)" and "\<not> P (last ls)"
proof -
  from assms have ne: "dropWhile P (rev (dropWhile P xs)) \<noteq> []"
    by simp
  then have "\<not> P (hd (dropWhile P (rev (dropWhile P xs))))"
    by (rule hd_dropWhile)
  with assms ne show "\<not> P (last ls)"
    by (simp add: last_rev)
  have ne2: "dropWhile P xs \<noteq> []"
  proof
    assume "dropWhile P xs = []"
    with ne show False
      by simp
  qed
  then have h: "\<not> P (hd (dropWhile P xs))"
    by (rule hd_dropWhile)
  have "hd ls = hd (dropWhile P xs)"
  proof (cases "dropWhile P xs")
    case Nil
    with ne2 show ?thesis
      by simp
  next
    case (Cons y ys)
    then have "\<not> P y"
      using h by simp
    have "rev (dropWhile P (rev (y # ys))) = y # rev (dropWhile P (rev ys))"
    proof (cases "\<forall>x\<in>set (rev ys). P x")
      case True
      then have "dropWhile P (rev ys) = []"
        by simp
      moreover have "dropWhile P (rev ys @ [y]) = dropWhile P [y]"
        by (rule dropWhile_append2) (use True in auto)
      moreover note \<open>\<not> P y\<close>
      ultimately show ?thesis
        by simp
    next
      case False
      then obtain x where "x \<in> set (rev ys)" and "\<not> P x"
        by auto
      then have "dropWhile P (rev ys @ [y]) = dropWhile P (rev ys) @ [y]"
        by (rule dropWhile_append1)
      then show ?thesis
        by simp
    qed
    with assms(1) Cons show ?thesis
      by simp
  qed
  with h show "\<not> P (hd ls)"
    by simp
qed

text \<open>
  C9 (normalization is idempotent).
\<close>

theorem C9_normalize_idempotent:
  "normalize_query (normalize_query q) = normalize_query q"
proof -
  define ls where "ls = rev (dropWhile (\<lambda>l. length l = 0) (rev (dropWhile (\<lambda>l. length l = 0) (map TrimSpace (Split_nl q)))))"
  have nq: "normalize_query q = Join ls '' ''"
    by (simp add: normalize_query_def ls_def Let_def)
  have sub: "set ls \<subseteq> set (map TrimSpace (Split_nl q))"
    unfolding ls_def by (auto dest!: set_dropWhileD)
  have nonl: "\<forall>l\<in>set ls. CHR 0x0A \<notin> set l"
  proof
    fix l assume "l \<in> set ls"
    with sub obtain l0 where "l0 \<in> set (Split_nl q)" and "l = TrimSpace l0"
      by auto
    then show "CHR 0x0A \<notin> set l"
      using TrimSpace_subset [of l0] Split_nl_no_newline [of l0 q] by auto
  qed
  show ?thesis
  proof (cases "ls = []")
    case True
    then show ?thesis
      by (simp add: nq) (simp add: normalize_query_def TrimSpace_def trimPrefixes.simps spaceRunes_def)
  next
    case False
    from dropWhile_rev_dropWhile_hd_last [OF ls_def False]
    have hd: "hd ls \<noteq> []" and last: "last ls \<noteq> []"
      by auto
    from False sub have "hd ls \<in> set (map TrimSpace (Split_nl q))" and "last ls \<in> set (map TrimSpace (Split_nl q))"
      by auto
    then have np: "\<forall>tok\<in>set spaceRunes. \<not> prefix tok (hd ls)"
      and ns: "\<forall>tok\<in>set spaceRunes. \<not> suffix tok (last ls)"
      by (auto simp: TrimSpace_no_prefix TrimSpace_no_suffix)
    let ?r = "Join ls '' ''"
    have "TrimSpace ?r = ?r"
      using Join_no_prefix [OF False hd np] Join_no_suffix [OF False last ns]
      by (intro TrimSpace_id) auto
    moreover have "Split_nl ?r = [?r]"
      using nonl by (intro Split_nl_single Join_no_newline)
    moreover have "?r \<noteq> []"
    proof (cases ls)
      case Nil
      with False show ?thesis
        by simp
    next
      case (Cons l rest)
      with hd show ?thesis
        by (cases rest) auto
    qed
    ultimately have "normalize_query ?r = ?r"
      by (simp add: normalize_query_def)
    then show ?thesis
      by (simp add: nq)
  qed
qed

lemma prefix_before_char:
  "prefix t (a @ c # r) \<Longrightarrow> c \<notin> set t \<Longrightarrow> prefix t a"
  by (auto simp: prefix_append prefix_Cons)

lemma trimPrefixes_keeps:
  assumes "\<forall>tok\<in>set toks. c \<notin> set tok"
  shows "\<exists>a'. trimPrefixes toks (a @ c # r) = a' @ c # r"
proof (induction a rule: length_induct)
  case (1 a)
  show ?case
  proof (cases "filter (\<lambda>tok. tok \<noteq> [] \<and> prefix tok (a @ c # r)) toks")
    case Nil
    then have "trimPrefixes toks (a @ c # r) = a @ c # r"
      by (subst trimPrefixes.simps) simp
    then show ?thesis
      by blast
  next
    case (Cons t ts)
    then have "t \<in> set (filter (\<lambda>tok. tok \<noteq> [] \<and> prefix tok (a @ c # r)) toks)"
      by simp
    then have t: "t \<in> set toks" "t \<noteq> []" "prefix t (a @ c # r)"
      by auto
    from assms t(1) have "c \<notin> set t"
      by simp
    with t(3) have "prefix t a"
      by (rule prefix_before_char)
    then obtain a2 where a: "a = t @ a2"
      by (auto simp: prefix_def)
    with t(2) have "length a2 < length a"
      by simp
    with 1 obtain a' where "trimPrefixes toks (a2 @ c # r) = a' @ c # r"
      by blast
    moreover from Cons a have "trimPrefixes toks (a @ c # r) = trimPrefixes toks (a2 @ c # r)"
      by (subst trimPrefixes.simps) simp
    ultimately show ?thesis
      by simp
  qed
qed

lemma TrimSpace_keeps_quoted:
  "\<exists>a' b'. TrimSpace (a @ CHR 0x27 # body @ CHR 0x27 # b) = a' @ CHR 0x27 # body @ CHR 0x27 # b'"
proof -
  have "\<forall>tok\<in>set spaceRunes. CHR 0x27 \<notin> set tok"
    by (simp add: spaceRunes_def)
  from trimPrefixes_keeps [OF this, of a "body @ CHR 0x27 # b"]
  obtain a' where 1: "trimPrefixes spaceRunes (a @ CHR 0x27 # body @ CHR 0x27 # b) = a' @ CHR 0x27 # body @ CHR 0x27 # b"
    by auto
  have "\<forall>tok\<in>set (map rev spaceRunes). CHR 0x27 \<notin> set tok"
    by (simp add: spaceRunes_def)
  from trimPrefixes_keeps [OF this, of "rev b" "rev body @ CHR 0x27 # rev a'"]
  obtain b' where 2: "trimPrefixes (map rev spaceRunes) (rev b @ CHR 0x27 # rev body @ CHR 0x27 # rev a')
      = b' @ CHR 0x27 # rev body @ CHR 0x27 # rev a'"
    by auto
  have "TrimSpace (a @ CHR 0x27 # body @ CHR 0x27 # b) = a' @ CHR 0x27 # body @ CHR 0x27 # rev b'"
    by (simp add: TrimSpace_def 1 2)
  then show ?thesis
    by blast
qed

lemma Split_nl_append_line:
  "CHR 0x0A \<notin> set x \<Longrightarrow> Split_nl (x @ y) = (x @ hd (Split_nl y)) # tl (Split_nl y)"
  by (induction x) (auto simp: Split_nl_nonempty)

lemma Split_nl_has_line:
  "CHR 0x0A \<notin> set m \<Longrightarrow> \<exists>a b. a @ m @ b \<in> set (Split_nl (pre @ m @ suf))"
proof (induction pre)
  case Nil
  then have "[] @ m @ hd (Split_nl suf) \<in> set (Split_nl ([] @ m @ suf))"
    by (simp add: Split_nl_append_line)
  then show ?case
    by blast
next
  case (Cons c pre)
  then obtain a b where ab: "a @ m @ b \<in> set (Split_nl (pre @ m @ suf))"
    by blast
  show ?case
  proof (cases "c = CHR 0x0A")
    case True
    with ab have "a @ m @ b \<in> set (Split_nl ((c # pre) @ m @ suf))"
      by simp
    then show ?thesis
      by blast
  next
    case False
    obtain l ls where s: "Split_nl (pre @ m @ suf) = l # ls"
      using Split_nl_nonempty by (cases "Split_nl (pre @ m @ suf)") auto
    with False have s': "Split_nl ((c # pre) @ m @ suf) = (c # l) # ls"
      by simp
    show ?thesis
    proof (cases "a @ m @ b = l")
      case True
      with s' have "(c # a) @ m @ b \<in> set (Split_nl ((c # pre) @ m @ suf))"
        by simp
      then show ?thesis
        by blast
    next
      case False
      with ab s have "a @ m @ b \<in> set ls"
        by simp
      with s' have "a @ m @ b \<in> set (Split_nl ((c # pre) @ m @ suf))"
        by simp
      then show ?thesis
        by blast
    qed
  qed
qed

lemma in_dropWhile:
  "x \<in> set xs \<Longrightarrow> \<not> P x \<Longrightarrow> x \<in> set (dropWhile P xs)"
  by (induction xs) auto

lemma sublist_Join:
  "l \<in> set ls \<Longrightarrow> sublist l (Join ls sep)"
proof (induction ls sep rule: Join.induct)
  case (1 sep)
  then show ?case
    by simp
next
  case (2 l' sep)
  then show ?case
    by simp
next
  case (3 l' v va sep)
  show ?case
  proof (cases "l = l'")
    case True
    then show ?thesis
      by (simp add: sublist_append_rightI)
  next
    case False
    with 3 have "sublist l (Join (v # va) sep)"
      by simp
    then obtain p s where "Join (v # va) sep = p @ l @ s"
      by (auto simp: sublist_def)
    then have "Join (l' # v # va) sep = (l' @ sep @ p) @ l @ s"
      by simp
    then show ?thesis
      unfolding sublist_def by blast
  qed
qed

lemma normalize_query_single_line:
  assumes "CHR 0x0A \<notin> set q"
  shows "normalize_query q = TrimSpace q"
proof -
  from assms have "Split_nl q = [q]"
    by (rule Split_nl_single)
  then show ?thesis
    by (cases "TrimSpace q = []") (simp_all add: normalize_query_def)
qed

text \<open>
  C8 (the Normalizer touches only inter-line whitespace and never changes whitespace inside
  a string literal), as stated, does not hold: a line break inside a string literal, with
  the white space around it, becomes one space.
\<close>

theorem C8_literal_across_lines_changed:
  "normalize_query (''SELECT '' @ [CHR 0x27] @ ''a'' @ [CHR 0x0A] @ ''  b'' @ [CHR 0x27])
     = ''SELECT '' @ [CHR 0x27] @ ''a b'' @ [CHR 0x27]
   \<and> \<not> sublist ([CHR 0x27] @ ''a'' @ [CHR 0x0A] @ ''  b'' @ [CHR 0x27])
         (normalize_query (''SELECT '' @ [CHR 0x27] @ ''a'' @ [CHR 0x0A] @ ''  b'' @ [CHR 0x27]))"
proof -
  have n: "normalize_query (''SELECT '' @ [CHR 0x27] @ ''a'' @ [CHR 0x0A] @ ''  b'' @ [CHR 0x27])
     = ''SELECT '' @ [CHR 0x27] @ ''a b'' @ [CHR 0x27]"
    by (simp add: normalize_simps)
  have "\<not> sublist ([CHR 0x27] @ ''a'' @ [CHR 0x0A] @ ''  b'' @ [CHR 0x27]) (''SELECT '' @ [CHR 0x27] @ ''a b'' @ [CHR 0x27])"
  proof
    assume "sublist ([CHR 0x27] @ ''a'' @ [CHR 0x0A] @ ''  b'' @ [CHR 0x27]) (''SELECT '' @ [CHR 0x27] @ ''a b'' @ [CHR 0x27])"
    then have "set ([CHR 0x27] @ ''a'' @ [CHR 0x0A] @ ''  b'' @ [CHR 0x27]) \<subseteq> set (''SELECT '' @ [CHR 0x27] @ ''a b'' @ [CHR 0x27])"
      by (rule set_mono_sublist)
    then show False
      by simp
  qed
  with n show ?thesis
    by simp
qed

text \<open>
  C8, amended: the Normalizer changes white space only at the edges of the lines of the
  query. A query of one line is only trimmed; the normalized query has no line break;
  and a string literal that contains no line break occurs unchanged in the normalized
  query. (A literal that spans a line break is changed, as shown above.)
\<close>

theorem C8_literal_within_line_kept:
  "(CHR 0x0A \<notin> set q \<longrightarrow> normalize_query q = TrimSpace q)
   \<and> CHR 0x0A \<notin> set (normalize_query q)
   \<and> (CHR 0x0A \<notin> set body \<longrightarrow>
        sublist (CHR 0x27 # body @ [CHR 0x27])
          (normalize_query (pre @ CHR 0x27 # body @ CHR 0x27 # suf)))"
proof (intro conjI impI)
  assume "CHR 0x0A \<notin> set q"
  then show "normalize_query q = TrimSpace q"
    by (rule normalize_query_single_line)
next
  have "\<forall>l\<in>set (rev (dropWhile (\<lambda>l. length l = 0) (rev (dropWhile (\<lambda>l. length l = 0) (map TrimSpace (Split_nl q)))))).
      CHR 0x0A \<notin> set l"
  proof
    fix l
    assume "l \<in> set (rev (dropWhile (\<lambda>l. length l = 0) (rev (dropWhile (\<lambda>l. length l = 0) (map TrimSpace (Split_nl q))))))"
    then have "l \<in> set (map TrimSpace (Split_nl q))"
      by (auto dest!: set_dropWhileD)
    then obtain l0 where "l0 \<in> set (Split_nl q)" and "l = TrimSpace l0"
      by auto
    then show "CHR 0x0A \<notin> set l"
      using TrimSpace_subset [of l0] Split_nl_no_newline [of l0 q] by auto
  qed
  then show "CHR 0x0A \<notin> set (normalize_query q)"
    unfolding normalize_query_def Let_def by (rule Join_no_newline)
next
  assume nl: "CHR 0x0A \<notin> set body"
  let ?lit = "CHR 0x27 # body @ [CHR 0x27]"
  let ?P = "\<lambda>l::string. length l = 0"
  from nl have "CHR 0x0A \<notin> set ?lit"
    by simp
  from Split_nl_has_line [OF this, of pre suf]
  obtain a b where "a @ ?lit @ b \<in> set (Split_nl (pre @ CHR 0x27 # body @ CHR 0x27 # suf))"
    by auto
  then have "TrimSpace (a @ CHR 0x27 # body @ CHR 0x27 # b) \<in>
      set (map TrimSpace (Split_nl (pre @ CHR 0x27 # body @ CHR 0x27 # suf)))"
    by force
  moreover obtain a' b' where t: "TrimSpace (a @ CHR 0x27 # body @ CHR 0x27 # b) = a' @ CHR 0x27 # body @ CHR 0x27 # b'"
    using TrimSpace_keeps_quoted by blast
  ultimately have m: "a' @ CHR 0x27 # body @ CHR 0x27 # b' \<in>
      set (map TrimSpace (Split_nl (pre @ CHR 0x27 # body @ CHR 0x27 # suf)))"
    by simp
  have ne: "\<not> ?P (a' @ CHR 0x27 # body @ CHR 0x27 # b')"
    by simp
  from m ne have "a' @ CHR 0x27 # body @ CHR 0x27 # b' \<in>
      set (dropWhile ?P (map TrimSpace (Split_nl (pre @ CHR 0x27 # body @ CHR 0x27 # suf))))"
    by (rule in_dropWhile)
  then have "a' @ CHR 0x27 # body @ CHR 0x27 # b' \<in>
      set (rev (dropWhile ?P (map TrimSpace (Split_nl (pre @ CHR 0x27 # body @ CHR 0x27 # suf)))))"
    by simp
  from this ne have "a' @ CHR 0x27 # body @ CHR 0x27 # b' \<in>
      set (dropWhile ?P (rev (dropWhile ?P (map TrimSpace (Split_nl (pre @ CHR 0x27 # body @ CHR 0x27 # suf))))))"
    by (rule in_dropWhile)
  then have "a' @ CHR 0x27 # body @ CHR 0x27 # b' \<in>
      set (rev (dropWhile ?P (rev (dropWhile ?P (map TrimSpace (Split_nl (pre @ CHR 0x27 # body @ CHR 0x27 # suf)))))))"
    by simp
  then have "sublist (a' @ CHR 0x27 # body @ CHR 0x27 # b') (normalize_query (pre @ CHR 0x27 # body @ CHR 0x27 # suf))"
    unfolding normalize_query_def Let_def by (rule sublist_Join)
  moreover have "sublist ?lit (a' @ CHR 0x27 # body @ CHR 0x27 # b')"
    using sublist_appendI [of ?lit a' b'] by simp
  ultimately show "sublist ?lit (normalize_query (pre @ CHR 0x27 # body @ CHR 0x27 # suf))"
    using sublist_order.order.trans by blast
qed

theorem C8_literal_within_line_kept_witness:
  "normalize_query ''  SELECT 1  '' = TrimSpace ''  SELECT 1  ''
   \<and> sublist (CHR 0x27 # ''a  b'' @ [CHR 0x27])
       (normalize_query (''  SELECT '' @ CHR 0x27 # ''a  b'' @ CHR 0x27 # ('' '' @ [CHR 0x0A] @ ''  FROM t'')))"
  using C8_literal_within_line_kept [of "''  SELECT 1  ''" "''a  b''" "''  SELECT ''" "'' '' @ [CHR 0x0A] @ ''  FROM t''"]
  by simp

subsection \<open>The parameter scanner\<close>

lemma isMaxOf_Nil:
  "isMaxOf 0 []"
  by (simp add: isMaxOf_def)

lemma isMaxOf_step:
  "isMaxOf a A \<Longrightarrow> isMaxOf b B \<Longrightarrow> isMaxOf (if b > a then b else a) (A @ B)"
  by (auto simp: isMaxOf_def list_all_iff)

lemma foldl_isMaxOf:
  "list_all2 isMaxOf rest kss \<Longrightarrow> isMaxOf r ks \<Longrightarrow>
     isMaxOf (foldl (\<lambda>result subresult. if subresult > result then subresult else result) r rest)
       (ks @ concat kss)"
proof (induction rest kss arbitrary: r ks rule: list_all2_induct)
  case Nil
  then show ?case
    by simp
next
  case (Cons x xs y ys)
  from Cons.prems Cons.hyps(1) have "isMaxOf (if x > r then x else r) (ks @ y)"
    by (rule isMaxOf_step)
  from Cons.IH [OF this] show ?case
    by simp
qed

lemma maxResult_isMaxOf:
  "list_all2 isMaxOf rs kss \<Longrightarrow> isMaxOf (maxResult rs) (concat kss)"
proof (cases rs)
  case Nil
  assume "list_all2 isMaxOf rs kss"
  with Nil show ?thesis
    by (simp add: maxResult_def isMaxOf_Nil)
next
  case (Cons r rest)
  assume "list_all2 isMaxOf rs kss"
  with Cons obtain ks kss' where "kss = ks # kss'" and "isMaxOf r ks" and "list_all2 isMaxOf rest kss'"
    by (auto simp: list_all2_Cons1)
  with Cons foldl_isMaxOf [of rest kss' r ks] show ?thesis
    by (simp add: maxResult_def)
qed

lemma maxResult_map_isMaxOf:
  "(\<And>x. x \<in> set xs \<Longrightarrow> isMaxOf (f x) (g x)) \<Longrightarrow> isMaxOf (maxResult (map f xs)) (concat (map g xs))"
  by (rule maxResult_isMaxOf) (simp add: list_all2_map1 list_all2_map2 list.rel_refl_strong)

lemma maxResult_map_map_isMaxOf:
  "(\<And>xs x. xs \<in> set xss \<Longrightarrow> x \<in> set xs \<Longrightarrow> isMaxOf (f x) (g x)) \<Longrightarrow>
     isMaxOf (maxResult (map maxResult (map (map f) xss))) (concat (map concat (map (map g) xss)))"
proof -
  assume a: "\<And>xs x. xs \<in> set xss \<Longrightarrow> x \<in> set xs \<Longrightarrow> isMaxOf (f x) (g x)"
  have "isMaxOf (maxResult (map (\<lambda>xs. maxResult (map f xs)) xss)) (concat (map (\<lambda>xs. concat (map g xs)) xss))"
    by (rule maxResult_map_isMaxOf) (rule maxResult_map_isMaxOf, rule a)
  then show ?thesis
    by (simp add: comp_def)
qed

lemma option_isMaxOf:
  "(\<And>x. x \<in> set_option opt \<Longrightarrow> isMaxOf (f x) (g x)) \<Longrightarrow>
     isMaxOf (case map_option f opt of None \<Rightarrow> 0 | Some r \<Rightarrow> r)
       (case map_option g opt of None \<Rightarrow> [] | Some r \<Rightarrow> r)"
  by (cases opt) (simp_all add: isMaxOf_Nil)

lemmas isMaxOf_intros =
  isMaxOf_Nil maxResult_map_isMaxOf maxResult_map_map_isMaxOf option_isMaxOf

lemma findMaxParam_isMaxOf:
  "isMaxOf (findMaxParam n) (paramRefs n)"
  "isMaxOf (findMaxParam_rangeVar rv) (paramRefs_rangeVar rv)"
  "isMaxOf (findMaxParam_alias al) (paramRefs_alias al)"
  "isMaxOf (findMaxParam_typeName tn) (paramRefs_typeName tn)"
  "isMaxOf (findMaxParam_withClause wc) (paramRefs_withClause wc)"
  "isMaxOf (findMaxParam_onConflictClause oc) (paramRefs_onConflictClause oc)"
  "isMaxOf (findMaxParam_insertStmt ins) (paramRefs_insertStmt ins)"
  "isMaxOf (findMaxParam_selectStmt sel) (paramRefs_selectStmt sel)"
proof (induction n and rv and al and tn and wc and oc and ins and sel)
  case (ParamRef x)
  show ?case
    by (simp add: isMaxOf_def)
next
  case (OnConflictClause x1 x2 x3 x4 x5)
  then show ?case
    by (cases x2) (auto simp del: concat.simps intro!: maxResult_isMaxOf isMaxOf_intros)
qed (auto simp del: concat.simps intro!: maxResult_isMaxOf isMaxOf_intros split: option.splits)

lemma findMaxParam_tree_isMaxOf:
  "isMaxOf (findMaxParam_tree tree) (paramRefs_tree tree)"
proof -
  have "isMaxOf (maxResult (map findMaxParam tree)) (concat (map paramRefs tree))"
    by (rule maxResult_map_isMaxOf) (rule findMaxParam_isMaxOf)
  then have "isMaxOf (maxResult [maxResult (map findMaxParam tree)]) (concat [concat (map paramRefs tree)])"
    by (intro maxResult_isMaxOf) simp
  then show ?thesis
    by (simp add: findMaxParam_tree_def paramRefs_tree_def)
qed

lemma int64_id:
  "- (2 ^ 63) \<le> i \<Longrightarrow> i < 2 ^ 63 \<Longrightarrow> int64 i = i"
  by (simp add: int64_def)


text \<open>
  C1 (the tenant parameter index): when the rewrite of a parse tree succeeds with index
  \<open>N\<close>, the rewriter has run with \<open>tenantIDNum = 1 + findMaxParam tree\<close>; every injection
  goes through \<open>addTenantID\<close>, which writes \<open>$tenantIDNum\<close> and sets the flag
  \<open>isTransformed\<close>; if the flag is set at the end, \<open>N\<close> is \<open>tenantIDNum\<close>, which is greater
  than every parameter number \<open>K\<close> of the tree, and one more than the greatest of them if
  there is one that is not negative; if the flag is not set, \<open>N\<close> is 0. The numbers are
  64-bit integers, and the greatest one is supposed to be less than the greatest 64-bit
  integer.
\<close>

theorem C1_tenant_param_index:
  assumes "doTransform c tree = (q, N, None)"
    and "list_all (\<lambda>K. - (2 ^ 63) \<le> K \<and> K < 2 ^ 63 - 1) (paramRefs_tree tree)"
  shows "\<exists>w. transformTree \<lparr>Conn = c, tenantIDNum = 1 + findMaxParam_tree tree\<rparr> tree
                \<lparr>buf = [], isTransformed = False\<rparr> = ((q, None), w)
            \<and> N = (if isTransformed w then 1 + findMaxParam_tree tree else 0)
            \<and> (isTransformed w \<longrightarrow>
                 list_all (\<lambda>K. K < N) (paramRefs_tree tree)
                 \<and> (list_ex (\<lambda>K. 0 \<le> K) (paramRefs_tree tree) \<longrightarrow>
                      N = 1 + Max (set (paramRefs_tree tree))))
            \<and> (\<forall>w'. addTenantID \<lparr>Conn = c, tenantIDNum = 1 + findMaxParam_tree tree\<rparr> w' =
                      \<lparr>buf = buf w' @ ''$'' @ itoa (1 + findMaxParam_tree tree), isTransformed = True\<rparr>)"
proof -
  let ?m = "findMaxParam_tree tree"
  let ?ks = "paramRefs_tree tree"
  have m: "isMaxOf ?m ?ks"
    by (rule findMaxParam_tree_isMaxOf)
  then have bound: "\<forall>K\<in>set ?ks. K \<le> ?m" and mem: "?m = 0 \<or> ?m \<in> set ?ks"
    by (auto simp: isMaxOf_def list_all_iff)
  from mem assms(2) have "- (2 ^ 63) \<le> 1 + ?m" and "1 + ?m < 2 ^ 63"
    by (auto simp: list_all_iff)
  then have i: "int64 (1 + ?m) = 1 + ?m"
    by (rule int64_id)
  obtain res e w where tt: "transformTree \<lparr>Conn = c, tenantIDNum = 1 + ?m\<rparr> tree
      \<lparr>buf = [], isTransformed = False\<rparr> = ((res, e), w)"
    by (metis surj_pair)
  with assms(1) i have e: "e = None" and q: "res = q" and N: "N = (if isTransformed w then 1 + ?m else 0)"
    by (auto simp: doTransform_def Let_def split: option.splits if_splits)
  have max: "Max (set ?ks) = ?m" if "list_ex (\<lambda>K. 0 \<le> K) ?ks"
  proof -
    from that obtain K where K: "K \<in> set ?ks" "0 \<le> K"
      by (auto simp: list_ex_iff)
    with bound have "0 \<le> ?m"
      by force
    have "?m \<in> set ?ks"
    proof (cases "?m = 0")
      case True
      with K bound have "K = 0"
        by force
      with K True show ?thesis
        by simp
    next
      case False
      with mem show ?thesis
        by simp
    qed
    with bound show ?thesis
      by (intro Max_eqI) auto
  qed
  have a: "\<forall>w'. addTenantID \<lparr>Conn = c, tenantIDNum = 1 + ?m\<rparr> w' =
      \<lparr>buf = buf w' @ ''$'' @ itoa (1 + ?m), isTransformed = True\<rparr>"
    by (simp add: addTenantID_def Fprint_def)
  from bound have "isTransformed w \<longrightarrow> list_all (\<lambda>K. K < 1 + ?m) ?ks"
    by (auto simp: list_all_iff)
  with tt e q N max a show ?thesis
    by (intro exI [of _ w]) auto
qed

theorem C1_tenant_param_index_witness:
  "\<exists>w. transformTree \<lparr>Conn = exampleConn, tenantIDNum = 1 + findMaxParam_tree tree_select_param\<rparr>
          tree_select_param \<lparr>buf = [], isTransformed = False\<rparr> =
            ((''SELECT a FROM foo WHERE b = $1 AND tenant_id = $2'', None), w)
      \<and> 2 = (if isTransformed w then 1 + findMaxParam_tree tree_select_param else 0)
      \<and> (isTransformed w \<longrightarrow>
           list_all (\<lambda>K. K < 2) (paramRefs_tree tree_select_param)
           \<and> (list_ex (\<lambda>K. 0 \<le> K) (paramRefs_tree tree_select_param) \<longrightarrow>
                2 = 1 + Max (set (paramRefs_tree tree_select_param))))
      \<and> (\<forall>w'. addTenantID \<lparr>Conn = exampleConn, tenantIDNum = 1 + findMaxParam_tree tree_select_param\<rparr> w' =
                \<lparr>buf = buf w' @ ''$'' @ itoa (1 + findMaxParam_tree tree_select_param), isTransformed = True\<rparr>)"
proof -
  have d: "doTransform exampleConn tree_select_param =
      (''SELECT a FROM foo WHERE b = $1 AND tenant_id = $2'', 2, None)"
    by (simp add: eval_simps tree_select_param_def)
  have p: "list_all (\<lambda>K. - (2 ^ 63) \<le> K \<and> K < 2 ^ 63 - 1) (paramRefs_tree tree_select_param)"
    by (simp add: paramRefs_tree_def tree_select_param_def selectStmt_def target_def columnRef_def
          tableRef_def opExpr_def)
  from C1_tenant_param_index [OF d p] show ?thesis .
qed

subsection \<open>The tenant predicates of a WHERE clause\<close>

lemma envGet_envSet:
  "envGet (envSet env k v) k' = (if k' = k then v else envGet env k')"
  by (simp add: envGet_def envSet_def update_conv')

lemma Join_concat:
  "Join (p # ps) sep = p @ concat (map ((@) sep) ps)"
  by (induction ps arbitrary: p) auto

lemma transformWhereHelper_loop_eq:
  assumes "distinct rest"
  shows "transformWhereHelper_loop t tables onConflict rest first env w =
     (foldl (\<lambda>e table. if envGet env table = needsTenantID then envSet e table hasTenantID else e) env rest,
      w\<lparr>buf := buf w @
            (let ps = map (tenantPredicate t (length tables > 1 \<or> onConflict))
                        (filter (\<lambda>table. envGet env table = needsTenantID) rest)
             in if first then Join ps '' AND '' else concat (map ((@) '' AND '') ps)),
         isTransformed := isTransformed w \<or> list_ex (\<lambda>table. envGet env table = needsTenantID) rest\<rparr>)"
  using assms
proof (induction rest arbitrary: first env w)
  case Nil
  then show ?case
    by simp
next
  case (Cons table rest)
  from Cons.prems have d: "distinct rest" and n: "table \<notin> set rest"
    by auto
  show ?case
  proof (cases "envGet env table = needsTenantID")
    case False
    with Cons.IH [OF d] show ?thesis
      by simp
  next
    case True
    let ?env = "envSet env table hasTenantID"
    from n have same: "\<And>x. x \<in> set rest \<Longrightarrow> envGet ?env x = envGet env x"
      by (auto simp: envGet_envSet)
    then have f: "filter (\<lambda>x. envGet ?env x = needsTenantID) rest = filter (\<lambda>x. envGet env x = needsTenantID) rest"
      by (intro filter_cong) auto
    from same have e: "list_ex (\<lambda>x. envGet ?env x = needsTenantID) rest = list_ex (\<lambda>x. envGet env x = needsTenantID) rest"
      by (auto simp: list_ex_iff)
    from same have g: "\<And>e0. foldl (\<lambda>e x. if envGet ?env x = needsTenantID then envSet e x hasTenantID else e) e0 rest
        = foldl (\<lambda>e x. if envGet env x = needsTenantID then envSet e x hasTenantID else e) e0 rest"
      by (intro foldl_cong) auto
    from True show ?thesis
      by (simp add: Cons.IH [OF d] f e g Let_def Fprint_def addTenantID_def tenantPredicate_def Join_concat)
  qed
qed

text \<open>
  C2 (the tenant predicates of a WHERE clause). The loop of \<open>transformWhereHelper\<close> over
  the tables writes the predicates as the specification words them (\<open>tenantPredicates\<close>):
  one for every table tagged \<open>needsTenantID\<close>, in the order of the tables, joined with
  \<open>AND\<close>, qualified exactly when there is more than one table or in onConflict mode; these
  tables are then tagged \<open>hasTenantID\<close>. \<open>transformWhere\<close> hands over the names of the
  environment sorted. With no condition in the input the predicates make the WHERE clause;
  after a condition they follow it, joined with \<open>AND\<close> (the condition in parentheses if it
  is an OR or a NOT). And the rewrite of
  \<open>DELETE FROM cotton USING lamp WHERE lamp.x = cotton.y\<close> is as specified.
\<close>

theorem C2_tenant_predicates:
  "(distinct tables \<longrightarrow>
      transformWhereHelper_loop t tables onConflict tables True env w =
        (markHasTenantID env tables,
         w\<lparr>buf := buf w @ tenantPredicates t env onConflict tables,
            isTransformed := isTransformed w \<or> list_ex (\<lambda>table. envGet env table = needsTenantID) tables\<rparr>))
   \<and> (distinct (map fst env) \<and> (wh \<noteq> Nil \<or> list_ex (\<lambda>(tbl, state). state = needsTenantID) env)
        \<and> \<not> list_ex (\<lambda>(tbl, state). state = isLeftJoinTable) env \<longrightarrow>
        transformWhere t wh env onConflict w =
          transformWhereHelper t wh env onConflict (sort (map fst env)) (Fprint '' WHERE '' w)
        \<and> sorted (sort (map fst env)) \<and> distinct (sort (map fst env))
        \<and> set (sort (map fst env)) = fst ` set env)
   \<and> (distinct tables \<and> list_ex (\<lambda>table. envGet env table = needsTenantID) tables \<longrightarrow>
        transformWhereHelper t Nil env onConflict tables w =
          (None, markHasTenantID env tables,
           w\<lparr>buf := buf w @ tenantPredicates t env onConflict tables, isTransformed := True\<rparr>))
   \<and> (\<forall>env1 w1. distinct tables \<and> list_ex (\<lambda>table. envGet env table = needsTenantID) tables
        \<and> wh \<noteq> Nil \<and> (\<forall>boolop args. wh = BoolExpr boolop args \<longrightarrow> boolop = AND_EXPR)
        \<and> transformNode t wh env w = (None, env1, w1) \<longrightarrow>
        transformWhereHelper t wh env onConflict tables w =
          (None, markHasTenantID env1 tables,
           w1\<lparr>buf := buf w1 @ '' AND '' @ tenantPredicates t env1 onConflict tables,
               isTransformed := isTransformed w1 \<or> list_ex (\<lambda>table. envGet env1 table = needsTenantID) tables\<rparr>))
   \<and> (\<forall>boolop args env1 w1. distinct tables \<and> list_ex (\<lambda>table. envGet env table = needsTenantID) tables
        \<and> boolop \<noteq> AND_EXPR
        \<and> transformBoolExpr t boolop args env (Fprint ''('' w) = (None, env1, w1) \<longrightarrow>
        transformWhereHelper t (BoolExpr boolop args) env onConflict tables w =
          (None, markHasTenantID env1 tables,
           w1\<lparr>buf := buf w1 @ '')'' @ '' AND '' @ tenantPredicates t env1 onConflict tables,
               isTransformed := isTransformed w1 \<or> list_ex (\<lambda>table. envGet env1 table = needsTenantID) tables\<rparr>))
   \<and> doTransform exampleConn tree_delete_using =
        (''DELETE FROM cotton USING lamp WHERE lamp.x = cotton.y AND cotton.tenant_id = $1 AND lamp.tenant_id = $1'',
         1, None)"
proof -
  have loop: "transformWhereHelper_loop t tables onConflict tables True env w =
        (markHasTenantID env tables,
         w\<lparr>buf := buf w @ tenantPredicates t env onConflict tables,
            isTransformed := isTransformed w \<or> list_ex (\<lambda>table. envGet env table = needsTenantID) tables\<rparr>)"
    if "distinct tables" for env w
    using transformWhereHelper_loop_eq [OF that, of t tables onConflict True env w]
    by (simp add: markHasTenantID_def tenantPredicates_def Let_def)
  have 1: "distinct tables \<longrightarrow>
      transformWhereHelper_loop t tables onConflict tables True env w =
        (markHasTenantID env tables,
         w\<lparr>buf := buf w @ tenantPredicates t env onConflict tables,
            isTransformed := isTransformed w \<or> list_ex (\<lambda>table. envGet env table = needsTenantID) tables\<rparr>)"
    using loop by simp
  have 2: "distinct (map fst env) \<and> (wh \<noteq> Nil \<or> list_ex (\<lambda>(tbl, state). state = needsTenantID) env)
        \<and> \<not> list_ex (\<lambda>(tbl, state). state = isLeftJoinTable) env \<longrightarrow>
        transformWhere t wh env onConflict w =
          transformWhereHelper t wh env onConflict (sort (map fst env)) (Fprint '' WHERE '' w)
        \<and> sorted (sort (map fst env)) \<and> distinct (sort (map fst env))
        \<and> set (sort (map fst env)) = fst ` set env"
  proof (intro impI)
    assume a: "distinct (map fst env) \<and> (wh \<noteq> Nil \<or> list_ex (\<lambda>(tbl, state). state = needsTenantID) env)
        \<and> \<not> list_ex (\<lambda>(tbl, state). state = isLeftJoinTable) env"
    then have "find (\<lambda>(tbl, status). status = isLeftJoinTable) env = None"
      by (auto simp: find_None_iff list_ex_iff)
    with a show "transformWhere t wh env onConflict w =
          transformWhereHelper t wh env onConflict (sort (map fst env)) (Fprint '' WHERE '' w)
        \<and> sorted (sort (map fst env)) \<and> distinct (sort (map fst env))
        \<and> set (sort (map fst env)) = fst ` set env"
      by (auto simp: transformWhere.simps Let_def)
  qed
  have 3: "distinct tables \<and> list_ex (\<lambda>table. envGet env table = needsTenantID) tables \<longrightarrow>
        transformWhereHelper t Nil env onConflict tables w =
          (None, markHasTenantID env tables,
           w\<lparr>buf := buf w @ tenantPredicates t env onConflict tables, isTransformed := True\<rparr>)"
    by (simp add: transformWhereHelper.simps transformWhereHelper_body_def loop)
  have 4: "\<forall>env1 w1. distinct tables \<and> list_ex (\<lambda>table. envGet env table = needsTenantID) tables
        \<and> wh \<noteq> Nil \<and> (\<forall>boolop args. wh = BoolExpr boolop args \<longrightarrow> boolop = AND_EXPR)
        \<and> transformNode t wh env w = (None, env1, w1) \<longrightarrow>
        transformWhereHelper t wh env onConflict tables w =
          (None, markHasTenantID env1 tables,
           w1\<lparr>buf := buf w1 @ '' AND '' @ tenantPredicates t env1 onConflict tables,
               isTransformed := isTransformed w1 \<or> list_ex (\<lambda>table. envGet env1 table = needsTenantID) tables\<rparr>)"
    by (auto simp: transformWhereHelper.simps transformWhereHelper_body_def loop wrapErr_def Fprint_def split: node.splits)
  have 5: "\<forall>boolop args env1 w1. distinct tables \<and> list_ex (\<lambda>table. envGet env table = needsTenantID) tables
        \<and> boolop \<noteq> AND_EXPR
        \<and> transformBoolExpr t boolop args env (Fprint ''('' w) = (None, env1, w1) \<longrightarrow>
        transformWhereHelper t (BoolExpr boolop args) env onConflict tables w =
          (None, markHasTenantID env1 tables,
           w1\<lparr>buf := buf w1 @ '')'' @ '' AND '' @ tenantPredicates t env1 onConflict tables,
               isTransformed := isTransformed w1 \<or> list_ex (\<lambda>table. envGet env1 table = needsTenantID) tables\<rparr>)"
    by (auto simp: transformWhereHelper.simps transformWhereHelper_body_def loop Fprint_def)
  have 6: "doTransform exampleConn tree_delete_using =
        (''DELETE FROM cotton USING lamp WHERE lamp.x = cotton.y AND cotton.tenant_id = $1 AND lamp.tenant_id = $1'',
         1, None)"
    by (simp add: eval_simps tree_delete_using_def)
  from 1 2 3 4 5 6 show ?thesis
    by (intro conjI)
qed

theorem C2_tenant_predicates_witness:
  "transformWhereHelper_loop \<lparr>Conn = exampleConn, tenantIDNum = 1\<rparr> [''cotton'', ''lamp''] False
       [''cotton'', ''lamp''] True [(''cotton'', needsTenantID), (''lamp'', needsTenantID)]
       \<lparr>buf = ''x = y AND '', isTransformed = False\<rparr> =
     ([(''cotton'', hasTenantID), (''lamp'', hasTenantID)],
      \<lparr>buf = ''x = y AND cotton.tenant_id = $1 AND lamp.tenant_id = $1'', isTransformed = True\<rparr>)
   \<and> transformWhere \<lparr>Conn = exampleConn, tenantIDNum = 1\<rparr> Nil
       [(''zeta'', needsTenantID), (''alpha'', needsTenantID), (''cte'', isCTE)] False
       \<lparr>buf = ''SELECT 1 FROM zeta, alpha, cte'', isTransformed = False\<rparr> =
     (None, [(''zeta'', hasTenantID), (''alpha'', hasTenantID), (''cte'', isCTE)],
      \<lparr>buf = ''SELECT 1 FROM zeta, alpha, cte WHERE alpha.tenant_id = $1 AND zeta.tenant_id = $1'',
         isTransformed = True\<rparr>)
   \<and> transformWhereHelper \<lparr>Conn = exampleConn, tenantIDNum = 2\<rparr>
       (opExpr (columnRef [''b'']) ''='' (ParamRef 1)) [(''foo'', needsTenantID)] False [''foo'']
       \<lparr>buf = ''SELECT a FROM foo WHERE '', isTransformed = False\<rparr> =
     (None, [(''foo'', hasTenantID)],
      \<lparr>buf = ''SELECT a FROM foo WHERE b = $1 AND tenant_id = $2'', isTransformed = True\<rparr>)
   \<and> transformWhereHelper \<lparr>Conn = exampleConn, tenantIDNum = 1\<rparr>
       (BoolExpr NOT_EXPR [columnRef [''b'']]) [(''foo'', needsTenantID)] True [''foo'']
       \<lparr>buf = ''WHERE '', isTransformed = False\<rparr> =
     (None, [(''foo'', hasTenantID)],
      \<lparr>buf = ''WHERE (NOT b) AND foo.tenant_id = $1'', isTransformed = True\<rparr>)"
proof -
  let ?t = "\<lparr>Conn = exampleConn, tenantIDNum = 1\<rparr>"
  let ?env = "[(''zeta'', needsTenantID), (''alpha'', needsTenantID), (''cte'', isCTE)]"
  have n: "transformNode \<lparr>Conn = exampleConn, tenantIDNum = 2\<rparr> (opExpr (columnRef [''b'']) ''='' (ParamRef 1))
      [(''foo'', needsTenantID)] \<lparr>buf = ''SELECT a FROM foo WHERE '', isTransformed = False\<rparr> =
      (None, [(''foo'', needsTenantID)], \<lparr>buf = ''SELECT a FROM foo WHERE b = $1'', isTransformed = False\<rparr>)"
    by (simp add: eval_simps)
  have b: "transformBoolExpr ?t NOT_EXPR [columnRef [''b'']] [(''foo'', needsTenantID)]
      (Fprint ''('' \<lparr>buf = ''WHERE '', isTransformed = False\<rparr>) =
      (None, [(''foo'', needsTenantID)], \<lparr>buf = ''WHERE (NOT b'', isTransformed = False\<rparr>)"
    by (simp add: eval_simps)
  have e: "tenantPredicates ?t [(''cotton'', needsTenantID), (''lamp'', needsTenantID)] False [''cotton'', ''lamp'']
      = ''cotton.tenant_id = $1 AND lamp.tenant_id = $1''"
    "tenantPredicates ?t ?env False [''alpha'', ''cte'', ''zeta''] = ''alpha.tenant_id = $1 AND zeta.tenant_id = $1''"
    "tenantPredicates \<lparr>Conn = exampleConn, tenantIDNum = 2\<rparr> [(''foo'', needsTenantID)] False [''foo'']
      = ''tenant_id = $2''"
    "tenantPredicates ?t [(''foo'', needsTenantID)] True [''foo''] = ''foo.tenant_id = $1''"
    by (simp_all add: tenantPredicates_def tenantPredicate_def eval_simps)
  have m: "markHasTenantID [(''cotton'', needsTenantID), (''lamp'', needsTenantID)] [''cotton'', ''lamp'']
      = [(''cotton'', hasTenantID), (''lamp'', hasTenantID)]"
    "markHasTenantID ?env [''alpha'', ''cte'', ''zeta''] = [(''zeta'', hasTenantID), (''alpha'', hasTenantID), (''cte'', isCTE)]"
    "markHasTenantID [(''foo'', needsTenantID)] [''foo''] = [(''foo'', hasTenantID)]"
    by (simp_all add: markHasTenantID_def envGet_def envSet_def)
  from C2_tenant_predicates [of "[''cotton'', ''lamp'']" ?t False "[(''cotton'', needsTenantID), (''lamp'', needsTenantID)]"
      "\<lparr>buf = ''x = y AND '', isTransformed = False\<rparr>" Nil]
  have 1: "transformWhereHelper_loop ?t [''cotton'', ''lamp''] False
       [''cotton'', ''lamp''] True [(''cotton'', needsTenantID), (''lamp'', needsTenantID)]
       \<lparr>buf = ''x = y AND '', isTransformed = False\<rparr> =
     ([(''cotton'', hasTenantID), (''lamp'', hasTenantID)],
      \<lparr>buf = ''x = y AND cotton.tenant_id = $1 AND lamp.tenant_id = $1'', isTransformed = True\<rparr>)"
    by (simp add: e m envGet_def)
  from C2_tenant_predicates [of "[''alpha'', ''cte'', ''zeta'']" ?t False ?env
      "\<lparr>buf = ''SELECT 1 FROM zeta, alpha, cte'', isTransformed = False\<rparr>" Nil]
    C2_tenant_predicates [of "[''alpha'', ''cte'', ''zeta'']" ?t False ?env
      "Fprint '' WHERE '' \<lparr>buf = ''SELECT 1 FROM zeta, alpha, cte'', isTransformed = False\<rparr>" Nil]
  have 2: "transformWhere ?t Nil ?env False
       \<lparr>buf = ''SELECT 1 FROM zeta, alpha, cte'', isTransformed = False\<rparr> =
     (None, [(''zeta'', hasTenantID), (''alpha'', hasTenantID), (''cte'', isCTE)],
      \<lparr>buf = ''SELECT 1 FROM zeta, alpha, cte WHERE alpha.tenant_id = $1 AND zeta.tenant_id = $1'',
         isTransformed = True\<rparr>)"
    by (simp add: e m envGet_def Fprint_def)
  from C2_tenant_predicates [of "[''foo'']" "\<lparr>Conn = exampleConn, tenantIDNum = 2\<rparr>" False "[(''foo'', needsTenantID)]"
      "\<lparr>buf = ''SELECT a FROM foo WHERE '', isTransformed = False\<rparr>" "opExpr (columnRef [''b'']) ''='' (ParamRef 1)"] n
  have 3: "transformWhereHelper \<lparr>Conn = exampleConn, tenantIDNum = 2\<rparr>
       (opExpr (columnRef [''b'']) ''='' (ParamRef 1)) [(''foo'', needsTenantID)] False [''foo'']
       \<lparr>buf = ''SELECT a FROM foo WHERE '', isTransformed = False\<rparr> =
     (None, [(''foo'', hasTenantID)],
      \<lparr>buf = ''SELECT a FROM foo WHERE b = $1 AND tenant_id = $2'', isTransformed = True\<rparr>)"
    by (simp add: e m envGet_def opExpr_def)
  from C2_tenant_predicates [of "[''foo'']" ?t True "[(''foo'', needsTenantID)]"
      "\<lparr>buf = ''WHERE '', isTransformed = False\<rparr>" Nil] b
  have 4: "transformWhereHelper ?t
       (BoolExpr NOT_EXPR [columnRef [''b'']]) [(''foo'', needsTenantID)] True [''foo'']
       \<lparr>buf = ''WHERE '', isTransformed = False\<rparr> =
     (None, [(''foo'', hasTenantID)],
      \<lparr>buf = ''WHERE (NOT b) AND foo.tenant_id = $1'', isTransformed = True\<rparr>)"
    by (simp add: e m envGet_def)
  from 1 2 3 4 show ?thesis
    by (intro conjI)
qed

end
